theory Spec2Isabelle
  imports Complex_Main
begin

section \<open>Path-like selectors and port mappers of neurokernel\<close>

text \<open>
  The development follows \<^verbatim>\<open>neurokernel/plsel.py\<close> (class \<^verbatim>\<open>PathLikeSelector\<close>, class
  \<^verbatim>\<open>PortMapper\<close>) and \<^verbatim>\<open>neurokernel/core.py\<close> (\<^verbatim>\<open>Module.__init__\<close>, \<^verbatim>\<open>Module._put_out_data\<close>).
  The code is Python 2 (\<^verbatim>\<open>xrange\<close>, \<^verbatim>\<open>reduce\<close>, list-valued \<^verbatim>\<open>map\<close> and \<^verbatim>\<open>range\<close>, an order
  between numbers and strings).
\<close>

subsection \<open>Data model\<close>

text \<open>Every \<^verbatim>\<open>raise\<close> and every failing \<^verbatim>\<open>assert\<close> is a value of this type.\<close>

datatype error =
    AssertionError | ValueError | IndexError | TypeError | NameError | KeyError | AttributeError

text \<open>
  A label of one level of an identifier is a Python \<^verbatim>\<open>str\<close> or \<^verbatim>\<open>int\<close>. A token of a parsed
  selector is what the \<^verbatim>\<open>t_...\<close> rules store in \<^verbatim>\<open>t.value\<close>: a \<^verbatim>\<open>str\<close> or \<^verbatim>\<open>int\<close> (\<open>Lit\<close>), a
  \<^verbatim>\<open>list\<close> of them (\<open>Lst\<close>), or the \<^verbatim>\<open>tuple\<close> \<^verbatim>\<open>(start, stop)\<close> of \<^verbatim>\<open>_parse_interval_str\<close>
  (\<open>Ivl\<close>), whose \<^verbatim>\<open>stop\<close> is \<^verbatim>\<open>np.inf\<close> (\<open>None\<close>) when the text leaves it out. The wildcard is
  the string \<^verbatim>\<open>'*'\<close>, as \<^verbatim>\<open>t_ASTERISK\<close> produces it. Selector texts are of type \<^verbatim>\<open>str\<close>, as the
  docstrings ask, and so are the string tokens cut out of them.
\<close>

datatype label = S string | I int

datatype token = Lit label | Lst "label list" | Ivl int "int option"

type_synonym selector = "token list list"

definition asterisk :: token where
  "asterisk = Lit (S ''*'')"

text \<open>
  \<^verbatim>\<open>int()\<close>, which \<^verbatim>\<open>t_INTEGER\<close> applies to the digits, returns an \<^verbatim>\<open>int\<close> up to \<^verbatim>\<open>sys.maxint\<close> (that
  of a 64-bit build) and a \<^verbatim>\<open>long\<close> beyond it. So the test \<^verbatim>\<open>type(token) in [int, str]\<close>,
  made in \<^verbatim>\<open>p_selector_dotplus_selector\<close> and in \<^verbatim>\<open>_select_test\<close>, holds of a string and of
  an integer up to \<^verbatim>\<open>sys.maxint\<close>, and fails for a larger integer literal. Comparisons
  (\<^verbatim>\<open>==\<close>, \<^verbatim>\<open>in\<close>, \<^verbatim>\<open><\<close>) go by value for both types.
\<close>

definition sys_maxint :: int where
  "sys_maxint = 9223372036854775807"

fun type_in_int_str :: "label \<Rightarrow> bool" where
  "type_in_int_str (S s) = True"
| "type_in_int_str (I n) = (n \<le> sys_maxint)"

subsection \<open>Python sequences\<close>

text \<open>\<^verbatim>\<open>xs[start:stop]\<close>: a bound left out is \<open>None\<close>, a negative bound counts from the end,
  and every bound is clipped to the length.\<close>

definition slice_bound :: "nat \<Rightarrow> int \<Rightarrow> nat" where
  "slice_bound n k = (if k < 0 then nat (max (k + int n) 0) else min (nat k) n)"

definition py_slice :: "'a list \<Rightarrow> int option \<Rightarrow> int option \<Rightarrow> 'a list" where
  "py_slice xs start stop =
     (let lo = (case start of None \<Rightarrow> 0 | Some k \<Rightarrow> slice_bound (length xs) k);
          hi = (case stop of None \<Rightarrow> length xs | Some k \<Rightarrow> slice_bound (length xs) k)
      in take (hi - lo) (drop lo xs))"

text \<open>\<^verbatim>\<open>xs[i]\<close> for an index that \<^verbatim>\<open>enumerate\<close> produced (never negative).\<close>

definition py_index :: "'a list \<Rightarrow> nat \<Rightarrow> error + 'a" where
  "py_index xs i = (if i < length xs then Inr (xs ! i) else Inl IndexError)"

subsection \<open>Calls that may raise, in sequence\<close>

text \<open>A step that may raise, followed by what is done with its result.\<close>

definition bind :: "error + 'a \<Rightarrow> ('a \<Rightarrow> error + 'b) \<Rightarrow> error + 'b" where
  "bind x f = (case x of Inl e \<Rightarrow> Inl e | Inr v \<Rightarrow> f v)"

text \<open>A comprehension or \<^verbatim>\<open>for\<close> statement whose body may raise: the first error ends it.\<close>

fun mapM :: "('a \<Rightarrow> error + 'b) \<Rightarrow> 'a list \<Rightarrow> error + 'b list" where
  "mapM f [] = Inr []"
| "mapM f (x # xs) =
     (case f x of
        Inl e \<Rightarrow> Inl e
      | Inr y \<Rightarrow> (case mapM f xs of Inl e \<Rightarrow> Inl e | Inr ys \<Rightarrow> Inr (y # ys)))"

text \<open>\<^verbatim>\<open>reduce(f, xs)\<close> with no initial value raises \<^verbatim>\<open>TypeError\<close> on an empty sequence.\<close>

fun py_reduce :: "('a \<Rightarrow> 'a \<Rightarrow> 'a) \<Rightarrow> 'a list \<Rightarrow> error + 'a" where
  "py_reduce f [] = Inl TypeError"
| "py_reduce f (x # xs) = Inr (foldl f x xs)"

text \<open>\<^verbatim>\<open>max(xs)\<close> raises \<^verbatim>\<open>ValueError\<close> on an empty sequence.\<close>

fun py_max :: "nat list \<Rightarrow> error + nat" where
  "py_max [] = Inl ValueError"
| "py_max (x # xs) = Inr (foldl max x xs)"

text \<open>\<^verbatim>\<open>range(start, stop)\<close> on the two entries of an interval token: a list of integers, and a
  \<^verbatim>\<open>TypeError\<close> when \<^verbatim>\<open>stop\<close> is the float \<^verbatim>\<open>np.inf\<close>.\<close>

fun py_range :: "int \<Rightarrow> int option \<Rightarrow> error + label list" where
  "py_range start None = Inl TypeError"
| "py_range start (Some stop) = Inr (map I [start..stop - 1])"

text \<open>\<^verbatim>\<open>itertools.product(*lists)\<close>: the rightmost list varies fastest.\<close>

fun itertools_product :: "'a list list \<Rightarrow> 'a list list" where
  "itertools_product [] = [[]]"
| "itertools_product (xs # xss) =
     concat (map (\<lambda>x. map ((#) x) (itertools_product xss)) xs)"

text \<open>\<^verbatim>\<open>re.search\<close> for a pattern that stands for a fixed text (\<^verbatim>\<open>r'\*'\<close>, \<^verbatim>\<open>r'\:\]'\<close>).\<close>

fun re_search :: "string \<Rightarrow> string \<Rightarrow> bool" where
  "re_search pat [] = (pat = [])"
| "re_search pat (c # cs) = (take (length pat) (c # cs) = pat \<or> re_search pat cs)"

subsection \<open>The grammar actions\<close>

text \<open>
  The parser itself is built by \<^verbatim>\<open>ply.yacc\<close> from the docstrings of the \<^verbatim>\<open>p_...\<close> methods; what
  the repository defines is the value each production computes. \<^verbatim>\<open>p[1]\<close>, \<^verbatim>\<open>p[2]\<close>, \<^verbatim>\<open>p[3]\<close> are
  the arguments, \<^verbatim>\<open>p[0]\<close> the result.
\<close>

definition p_selector_paren_selector :: "selector \<Rightarrow> selector" where
  "p_selector_paren_selector p2 = p2"

definition p_selector_comma_selector :: "selector \<Rightarrow> selector \<Rightarrow> selector" where
  "p_selector_comma_selector p1 p3 = p1 @ p3"

definition p_selector_plus_selector :: "selector \<Rightarrow> selector \<Rightarrow> selector" where
  "p_selector_plus_selector p1 p3 = concat (map (\<lambda>a. map (\<lambda>b. a @ b) p3) p1)"

definition p_selector_selector_plus_level :: "selector \<Rightarrow> token \<Rightarrow> selector" where
  "p_selector_selector_plus_level p1 p3 = map (\<lambda>x. x @ [p3]) p1"

definition p_selector_selector_level :: "selector \<Rightarrow> token \<Rightarrow> selector" where
  "p_selector_selector_level p1 p2 = map (\<lambda>x. x @ [p2]) p1"

definition p_selector_level :: "token \<Rightarrow> selector" where
  "p_selector_level p1 = [[p1]]"

text \<open>
  The list that stands for a token when \<^verbatim>\<open>p_selector_dotplus_selector\<close> lists the identifiers
  of an operand. A token of type \<^verbatim>\<open>int\<close> or \<^verbatim>\<open>str\<close> is wrapped in a list, a tuple is turned
  into its \<^verbatim>\<open>range\<close>, a list is kept. A token of any other type (a \<^verbatim>\<open>long\<close>) is left as it
  is, and \<^verbatim>\<open>itertools.product\<close> raises \<^verbatim>\<open>TypeError\<close> on it, as \<^verbatim>\<open>range\<close> does on \<^verbatim>\<open>np.inf\<close>.
\<close>

fun dotplus_level_list :: "token \<Rightarrow> error + label list" where
  "dotplus_level_list (Lit l) = (if type_in_int_str l then Inr [l] else Inl TypeError)"
| "dotplus_level_list (Ivl start stop) = py_range start stop"
| "dotplus_level_list (Lst ls) = Inr ls"

text \<open>
  \<^verbatim>\<open>selector : selector DOTPLUS selector\<close>. The tokens of \<^verbatim>\<open>p[1]\<close>, then those of \<^verbatim>\<open>p[3]\<close>, are
  rewritten; \<^verbatim>\<open>ids_1\<close> and \<^verbatim>\<open>ids_3\<close> are the products, branch after branch; the \<^verbatim>\<open>assert\<close>
  compares their lengths; the result pairs them. Every error before the \<^verbatim>\<open>assert\<close> is a
  \<^verbatim>\<open>TypeError\<close>. The branches of the result hold plain labels.
\<close>

definition p_selector_dotplus_selector :: "selector \<Rightarrow> selector \<Rightarrow> error + selector" where
  "p_selector_dotplus_selector p1 p3 =
     (case mapM (mapM dotplus_level_list) p1 of
        Inl e \<Rightarrow> Inl e
      | Inr q1 \<Rightarrow>
          (case mapM (mapM dotplus_level_list) p3 of
             Inl e \<Rightarrow> Inl e
           | Inr q3 \<Rightarrow>
               (let ids_1 = concat (map itertools_product q1);
                    ids_3 = concat (map itertools_product q3)
                in if length ids_1 \<noteq> length ids_3 then Inl AssertionError
                   else Inr (map (\<lambda>(a, b). map Lit (a @ b)) (zip ids_1 ids_3)))))"

subsection \<open>Expansion in the words of the specification\<close>

text \<open>
  The literal elements of a matcher: an interval gives its integers in order, a set its
  list, a literal itself. An interval without upper bound has no finite expansion; a
  selector is resolvable when it has none.
\<close>

fun matcher_elements :: "token \<Rightarrow> label list" where
  "matcher_elements (Lit l) = [l]"
| "matcher_elements (Lst ls) = ls"
| "matcher_elements (Ivl lo (Some hi)) = map I [lo..hi - 1]"
| "matcher_elements (Ivl lo None) = []"

fun bounded :: "token \<Rightarrow> bool" where
  "bounded (Ivl lo None) = False"
| "bounded tok = True"

definition resolvable :: "selector \<Rightarrow> bool" where
  "resolvable sel = list_all (list_all bounded) sel"

text \<open>A selector has plain literals when each of its literal tokens is of type \<^verbatim>\<open>int\<close> or
  \<^verbatim>\<open>str\<close>: no integer literal above \<^verbatim>\<open>sys.maxint\<close>.\<close>

fun plain :: "token \<Rightarrow> bool" where
  "plain (Lit l) = type_in_int_str l"
| "plain tok = True"

definition plain_literals :: "selector \<Rightarrow> bool" where
  "plain_literals sel = list_all (list_all plain) sel"

text \<open>The concrete identifiers of a branch are the cartesian product across its levels;
  those of a selector are the identifiers of its branches, in branch order.\<close>

definition branch_ids :: "token list \<Rightarrow> label list list" where
  "branch_ids branch = product_lists (map matcher_elements branch)"

definition expand_ids :: "selector \<Rightarrow> label list list" where
  "expand_ids sel = concat (map branch_ids sel)"

subsection \<open>\<^verbatim>\<open>PathLikeSelector._select_test\<close>\<close>

text \<open>
  The comparisons of the interval case, \<^verbatim>\<open>row_sub[i] >= i_start\<close> and
  \<^verbatim>\<open>row_sub[i] < i_stop\<close>. Python 2 orders every number before every string, so a string
  is above \<^verbatim>\<open>i_start\<close> and never below \<^verbatim>\<open>i_stop\<close>.
\<close>

fun label_ge :: "label \<Rightarrow> int \<Rightarrow> bool" where
  "label_ge (I v) lo = (lo \<le> v)"
| "label_ge (S s) lo = True"

fun label_lt :: "label \<Rightarrow> int option \<Rightarrow> bool" where
  "label_lt (I v) None = True"
| "label_lt (I v) (Some hi) = (v < hi)"
| "label_lt (S s) hi = False"

text \<open>One pass through the body of the inner loop for the token at position \<open>i\<close>:
  \<open>Inr True\<close> goes on to the next token, \<open>Inr False\<close> is \<^verbatim>\<open>break\<close>. The tests follow the
  \<^verbatim>\<open>if\<close>/\<^verbatim>\<open>elif\<close> chain: the wildcard, a token of type \<^verbatim>\<open>int\<close> or \<^verbatim>\<open>str\<close>, a list, a tuple;
  a token of any other type (a \<^verbatim>\<open>long\<close>) reaches the last \<^verbatim>\<open>else: continue\<close> and is passed
  without a look at the row.\<close>

definition token_test :: "label list \<Rightarrow> nat \<Rightarrow> token \<Rightarrow> error + bool" where
  "token_test row_sub i tok =
     (if tok = Lit (S ''*'') then Inr True
      else case tok of
          Lit l \<Rightarrow>
            if type_in_int_str l
            then (case py_index row_sub i of Inl e \<Rightarrow> Inl e | Inr v \<Rightarrow> Inr (\<not> v \<noteq> l))
            else Inr True
        | Lst ls \<Rightarrow>
            (case py_index row_sub i of Inl e \<Rightarrow> Inl e | Inr v \<Rightarrow> Inr (\<not> v \<notin> set ls))
        | Ivl i_start i_stop \<Rightarrow>
            (case py_index row_sub i of Inl e \<Rightarrow> Inl e
             | Inr v \<Rightarrow> Inr (\<not> \<not> (label_ge v i_start \<and> label_lt v i_stop))))"

text \<open>The inner \<^verbatim>\<open>for ... else\<close>: \<open>Inr True\<close> when the loop runs to its end (the \<^verbatim>\<open>else\<close>
  clause returns \<^verbatim>\<open>True\<close>), \<open>Inr False\<close> when it is left by \<^verbatim>\<open>break\<close>.\<close>

fun token_list_test :: "label list \<Rightarrow> nat \<Rightarrow> token list \<Rightarrow> error + bool" where
  "token_list_test row_sub i [] = Inr True"
| "token_list_test row_sub i (tok # toks) =
     (case token_test row_sub i tok of
        Inl e \<Rightarrow> Inl e
      | Inr ok \<Rightarrow> if ok then token_list_test row_sub (Suc i) toks else Inr False)"

text \<open>The outer loop over the token lists, and the \<^verbatim>\<open>return False\<close> after it.\<close>

fun parse_list_test :: "label list \<Rightarrow> selector \<Rightarrow> error + bool" where
  "parse_list_test row_sub [] = Inr False"
| "parse_list_test row_sub (token_list # rest) =
     (case token_list_test row_sub 0 token_list of
        Inl e \<Rightarrow> Inl e
      | Inr found \<Rightarrow> if found then Inr True else parse_list_test row_sub rest)"

definition select_test ::
  "label list \<Rightarrow> selector \<Rightarrow> int option \<Rightarrow> int option \<Rightarrow> error + bool" where
  "select_test row parse_list start stop =
     parse_list_test (py_slice row start stop) parse_list"

subsection \<open>\<^verbatim>\<open>PathLikeSelector.make_index\<close>\<close>

text \<open>
  A \<^verbatim>\<open>pandas.MultiIndex\<close>: the number of its levels and its tuples in order.
  \<^verbatim>\<open>MultiIndex.from_product\<close> lists the cartesian product of the level lists;
  \<^verbatim>\<open>MultiIndex.append\<close> puts the tuples of its argument after its own, level by level over
  its own levels: of an argument with more levels only the leading ones are kept (an
  argument with fewer levels does not occur in what follows). Neither looks for repeated
  tuples.
\<close>

record multiindex =
  mi_nlevels :: nat
  mi_tuples :: "label list list"

definition MultiIndex_append :: "multiindex \<Rightarrow> multiindex \<Rightarrow> multiindex" where
  "MultiIndex_append a b =
     a\<lparr>mi_tuples := mi_tuples a @ map (take (mi_nlevels a)) (mi_tuples b)\<rparr>"

text \<open>
  The list \<^verbatim>\<open>make_index\<close> puts into \<^verbatim>\<open>list_list\<close> for a token: the \<^verbatim>\<open>range\<close> of a tuple, a list
  itself, and \<^verbatim>\<open>[token]\<close> for a token of any other type.
\<close>

fun level_list :: "token \<Rightarrow> error + label list" where
  "level_list (Ivl start stop) = py_range start stop"
| "level_list (Lst ls) = Inr ls"
| "level_list (Lit l) = Inr [l]"

text \<open>
  One pass of the loop over \<^verbatim>\<open>parse_list\<close>: the level lists of the branch, their product,
  and \<^verbatim>\<open>assert type(idx) == pd.MultiIndex\<close>, which fails for a branch of a single level
  (\<^verbatim>\<open>from_product\<close> then returns a flat \<^verbatim>\<open>Index\<close>). The parser builds no empty branch.
  \<^verbatim>\<open>names\<close> keeps its default \<^verbatim>\<open>[]\<close>.
\<close>

definition make_index_branch :: "token list \<Rightarrow> error + multiindex" where
  "make_index_branch token_list =
     (case mapM level_list token_list of
        Inl e \<Rightarrow> Inl e
      | Inr list_list \<Rightarrow>
          if length list_list \<le> 1 then Inl AssertionError
          else Inr \<lparr>mi_nlevels = length list_list,
                    mi_tuples = itertools_product list_list\<rparr>)"

text \<open>The parser (\<^verbatim>\<open>self.parse\<close>, generated by ply) is the parameter \<open>parse\<close>; \<^verbatim>\<open>t_error\<close> and
  \<^verbatim>\<open>p_error\<close> make it raise \<^verbatim>\<open>ValueError\<close>.\<close>

type_synonym parser = "string \<Rightarrow> error + selector"

definition make_index :: "parser \<Rightarrow> string \<Rightarrow> error + multiindex" where
  "make_index parse selector =
     (if re_search ''*'' selector then Inl AssertionError
      else if re_search '':]'' selector then Inl AssertionError
      else case parse selector of
          Inl e \<Rightarrow> Inl e
        | Inr parse_list \<Rightarrow>
            (case mapM make_index_branch parse_list of
               Inl e \<Rightarrow> Inl e
             | Inr idx_list \<Rightarrow>
                 if length (remdups (map mi_nlevels idx_list)) \<noteq> 1 then Inl AssertionError
                 else py_reduce MultiIndex_append idx_list))"

subsection \<open>\<^verbatim>\<open>PathLikeSelector.get_tuples\<close> and \<^verbatim>\<open>PathLikeSelector.select\<close>\<close>

text \<open>
  A \<^verbatim>\<open>DataFrame\<close> or \<^verbatim>\<open>Series\<close> with a \<^verbatim>\<open>MultiIndex\<close>: the number of index levels
  (\<^verbatim>\<open>len(df.index.names)\<close>) and the rows, each an index tuple with its value.
  \<^verbatim>\<open>df.select(crit)\<close> keeps the rows whose index tuple satisfies \<^verbatim>\<open>crit\<close>, in order (for an
  index without repeated tuples).
\<close>

record 'a frame =
  nlevels :: nat
  rows :: "(label list \<times> 'a) list"

definition names_slice :: "'a frame \<Rightarrow> int option \<Rightarrow> int option \<Rightarrow> nat list" where
  "names_slice df start stop = py_slice [0..<nlevels df] start stop"

fun select_rows ::
  "(label list \<Rightarrow> error + bool) \<Rightarrow> (label list \<times> 'a) list \<Rightarrow> error + (label list \<times> 'a) list"
where
  "select_rows crit [] = Inr []"
| "select_rows crit (r # rs) =
     (case crit (fst r) of
        Inl e \<Rightarrow> Inl e
      | Inr keep \<Rightarrow>
          (case select_rows crit rs of
             Inl e \<Rightarrow> Inl e
           | Inr kept \<Rightarrow> Inr (if keep then r # kept else kept)))"

definition get_tuples ::
  "parser \<Rightarrow> 'a frame \<Rightarrow> string \<Rightarrow> int option \<Rightarrow> int option \<Rightarrow> error + label list list"
where
  "get_tuples parse df selector start stop =
     (case parse selector of
        Inl e \<Rightarrow> Inl e
      | Inr parse_list \<Rightarrow>
          (case py_max (map length parse_list) of
             Inl e \<Rightarrow> Inl e
           | Inr max_levels \<Rightarrow>
               if max_levels > length (names_slice df start stop) then Inl ValueError
               else (case select_rows (\<lambda>t. select_test t parse_list start stop) (rows df) of
                       Inl e \<Rightarrow> Inl e
                     | Inr kept \<Rightarrow> Inr (map fst kept))))"

definition select ::
  "parser \<Rightarrow> 'a frame \<Rightarrow> string \<Rightarrow> int option \<Rightarrow> int option \<Rightarrow> error + 'a frame"
where
  "select parse df selector start stop =
     (case parse selector of
        Inl e \<Rightarrow> Inl e
      | Inr parse_list \<Rightarrow>
          if length parse_list > length (names_slice df start stop) then Inl ValueError
          else (case select_rows (\<lambda>row. select_test row parse_list start stop) (rows df) of
                  Inl e \<Rightarrow> Inl e
                | Inr kept \<Rightarrow> Inr (df\<lparr>rows := kept\<rparr>)))"

subsection \<open>\<^verbatim>\<open>PortMapper\<close>\<close>

text \<open>
  \<^verbatim>\<open>data\<close> is the one-dimensional array the two \<^verbatim>\<open>assert\<close>s of \<^verbatim>\<open>__init__\<close> require;
  \<^verbatim>\<open>portmap\<close> is the \<^verbatim>\<open>Series\<close> of positions, indexed by the port identifiers.
  \<^verbatim>\<open>selectors\<close> is a \<^verbatim>\<open>str\<close> or a list of \<^verbatim>\<open>str\<close>.
\<close>

record port_mapper =
  data :: "real list"
  portmap :: "int frame"

datatype selectors = Str string | StrList "string list"

text \<open>Assigning \<^verbatim>\<open>self.portmap.index = idx\<close> raises \<^verbatim>\<open>ValueError\<close> when the index and the
  series differ in length.\<close>

definition PortMapper_init ::
  "parser \<Rightarrow> real list \<Rightarrow> selectors \<Rightarrow> int list option \<Rightarrow> error + port_mapper"
where
  "PortMapper_init parse data_arg selectors_arg idx_arg =
     (let positions = (case idx_arg of
                         None \<Rightarrow> map int [0..<length data_arg]
                       | Some ix \<Rightarrow> ix)
      in case (case selectors_arg of
                 StrList ss \<Rightarrow>
                   (case mapM (make_index parse) ss of
                      Inl e \<Rightarrow> Inl e
                    | Inr idx_list \<Rightarrow> py_reduce MultiIndex_append idx_list)
               | Str s \<Rightarrow> make_index parse s) of
           Inl e \<Rightarrow> Inl e
         | Inr idx \<Rightarrow>
             if length (mi_tuples idx) \<noteq> length positions then Inl ValueError
             else Inr \<lparr>data = data_arg,
                       portmap = \<lparr>nlevels = mi_nlevels idx,
                                  rows = zip (mi_tuples idx) positions\<rparr>\<rparr>)"

text \<open>\<^verbatim>\<open>a[k]\<close> inside a numpy index array: a negative \<^verbatim>\<open>k\<close> counts from the end, anything
  outside \<^verbatim>\<open>-len(a) .. len(a)-1\<close> raises \<^verbatim>\<open>IndexError\<close>.\<close>

definition np_position :: "nat \<Rightarrow> int \<Rightarrow> error + nat" where
  "np_position n k =
     (if 0 \<le> k \<and> k < int n then Inr (nat k)
      else if - int n \<le> k \<and> k < 0 then Inr (nat (k + int n))
      else Inl IndexError)"

text \<open>\<^verbatim>\<open>select(...).values\<close>: the positions of the selected rows.\<close>

definition frame_values :: "'a frame \<Rightarrow> 'a list" where
  "frame_values df = map snd (rows df)"

definition PortMapper_get :: "parser \<Rightarrow> port_mapper \<Rightarrow> string \<Rightarrow> error + real list" where
  "PortMapper_get parse pm selector =
     (case select parse (portmap pm) selector None None of
        Inl e \<Rightarrow> Inl e
      | Inr sel \<Rightarrow>
          (case mapM (np_position (length (data pm))) (frame_values sel) of
             Inl e \<Rightarrow> Inl e
           | Inr ks \<Rightarrow> Inr (map (\<lambda>k. data pm ! k) ks)))"

text \<open>
  \<^verbatim>\<open>self.data[positions] = value\<close>: a scalar or an array of length one goes to every
  position, an array of the length of \<^verbatim>\<open>positions\<close> goes element by element (the last write
  to a position stays), any other array raises \<^verbatim>\<open>ValueError\<close>.
\<close>

datatype set_value = Scalar real | Array "real list"

fun assign :: "real list \<Rightarrow> (nat \<times> real) list \<Rightarrow> real list" where
  "assign xs [] = xs"
| "assign xs ((k, v) # kvs) = assign (xs[k := v]) kvs"

definition PortMapper_set ::
  "parser \<Rightarrow> port_mapper \<Rightarrow> string \<Rightarrow> set_value \<Rightarrow> error + port_mapper"
where
  "PortMapper_set parse pm selector val =
     (case select parse (portmap pm) selector None None of
        Inl e \<Rightarrow> Inl e
      | Inr sel \<Rightarrow>
          (case mapM (np_position (length (data pm))) (frame_values sel) of
             Inl e \<Rightarrow> Inl e
           | Inr ks \<Rightarrow>
               (case val of
                  Scalar v \<Rightarrow> Inr (pm\<lparr>data := assign (data pm) (map (\<lambda>k. (k, v)) ks)\<rparr>)
                | Array vs \<Rightarrow>
                    if length vs = length ks
                    then Inr (pm\<lparr>data := assign (data pm) (zip ks vs)\<rparr>)
                    else if length vs = 1
                    then Inr (pm\<lparr>data := assign (data pm) (map (\<lambda>k. (k, hd vs)) ks)\<rparr>)
                    else Inl ValueError)))"

subsection \<open>Names and attributes\<close>

text \<open>
  A name read in a function body is looked up in the function's local names, then in the
  globals of its module, then in the builtins, and raises \<^verbatim>\<open>NameError\<close> when none binds it;
  an attribute read on a class raises \<^verbatim>\<open>AttributeError\<close> when the class does not define
  it. The namespace is a list of names; the last argument is the value the name has where
  it is bound.
\<close>

definition name_lookup :: "string list \<Rightarrow> string \<Rightarrow> 'a \<Rightarrow> error + 'a" where
  "name_lookup namespace name v = (if name \<in> set namespace then Inr v else Inl NameError)"

definition attr_lookup :: "string list \<Rightarrow> string \<Rightarrow> 'a \<Rightarrow> error + 'a" where
  "attr_lookup attributes name v =
     (if name \<in> set attributes then Inr v else Inl AttributeError)"

text \<open>The global names of \<^verbatim>\<open>plsel.py\<close>: its imports, its two classes, and what its
  \<^verbatim>\<open>__main__\<close> block binds.\<close>

definition plsel_globals :: "string list" where
  "plsel_globals =
     [''itertools'', ''re'', ''np'', ''pd'', ''lex'', ''yacc'', ''PathLikeSelector'',
      ''PortMapper'', ''main'', ''TestCase'', ''assert_frame_equal'', ''df1'', ''df'',
      ''test_path_like_selector'', ''test_port_mapper'']"

text \<open>What the body of \<^verbatim>\<open>class PathLikeSelector\<close> defines (its base class is \<^verbatim>\<open>object\<close>).\<close>

definition PathLikeSelector_attributes :: "string list" where
  "PathLikeSelector_attributes =
     [''tokens'', ''__init__'', ''_parse_interval_str'', ''t_PLUS'', ''t_DOTPLUS'',
      ''t_COMMA'', ''t_LPAREN'', ''t_RPAREN'', ''t_ASTERISK'', ''t_INTEGER'',
      ''t_INTEGER_SET'', ''t_INTERVAL'', ''t_STRING'', ''t_STRING_SET'', ''t_error'',
      ''p_selector_paren_selector'', ''p_selector_comma_selector'',
      ''p_selector_plus_selector'', ''p_selector_dotplus_selector'',
      ''p_selector_selector_plus_level'', ''p_selector_selector_level'',
      ''p_selector_level'', ''p_level'', ''p_error'', ''_setup'', ''tokenize'', ''parse'',
      ''isdisjoint_interval'', ''isdisjoint'', ''max_levels'', ''_select_test'',
      ''get_tuples'', ''get_index'', ''make_index'', ''select'']"

text \<open>The attributes of a \<^verbatim>\<open>PortMapper\<close>, apart from those every object has: what the body of
  \<^verbatim>\<open>class PortMapper\<close> defines and what \<^verbatim>\<open>__init__\<close> sets on the instance.\<close>

definition PortMapper_attributes :: "string list" where
  "PortMapper_attributes =
     [''__init__'', ''get'', ''set'', ''__getitem__'', ''__setitem__'', ''__repr__'',
      ''data'', ''sel'', ''portmap'']"

text \<open>The global names of \<^verbatim>\<open>core.py\<close> when \<^verbatim>\<open>class Module\<close> is defined: its imports.\<close>

definition core_globals :: "string list" where
  "core_globals =
     [''atexit'', ''collections'', ''np'', ''time'', ''drv'', ''gpuarray'', ''twiggy'',
      ''bidict'', ''BaseModule'', ''BaseManager'', ''Broker'', ''PORT_DATA'', ''PORT_CTRL'',
      ''setup_logger'', ''IgnoreKeyboardInterrupt'', ''OnKeyboardInterrupt'',
      ''ExceptionOnSignal'', ''TryExceptionOnSignal'', ''get_random_port'',
      ''catch_exception'', ''uid'', ''Interface'', ''Pattern'', ''PathLikeSelector'',
      ''PortMapper'']"

subsection \<open>\<^verbatim>\<open>Module._put_out_data\<close>\<close>

text \<open>\<^verbatim>\<open>d[k]\<close> on a dict raises \<^verbatim>\<open>KeyError\<close> for a missing key.\<close>

definition py_getitem :: "('k \<rightharpoonup> 'v) \<Rightarrow> 'k \<Rightarrow> error + 'v" where
  "py_getitem d k = (case d k of None \<Rightarrow> Inl KeyError | Some v \<Rightarrow> Inr v)"

text \<open>\<^verbatim>\<open>a[ks]\<close> for a numpy array and a sequence of integer indices.\<close>

definition np_take :: "real list \<Rightarrow> int list \<Rightarrow> error + real list" where
  "np_take a ks =
     bind (mapM (np_position (length a)) ks) (\<lambda>ps. Inr (map (\<lambda>p. a ! p) ps))"

text \<open>
  The connectivity pattern of a destination is a collaborator outside \<^verbatim>\<open>core.py\<close>; the two
  operations \<^verbatim>\<open>_put_out_data\<close> uses are its fields: \<^verbatim>\<open>pat.dest_idx(from_int, to_int, from_type,
  to_type, ports)\<close> and \<^verbatim>\<open>pat.interface.spike_pm(to_int).ports_to_inds(ports)\<close>.
\<close>

record pattern =
  dest_idx :: "int \<Rightarrow> int \<Rightarrow> string \<Rightarrow> string \<Rightarrow> label list list \<Rightarrow> error + label list list"
  spike_pm_ports_to_inds :: "int \<Rightarrow> label list list \<Rightarrow> error + int list"

text \<open>
  The attributes of a \<^verbatim>\<open>Module\<close> that \<^verbatim>\<open>_put_out_data\<close> reads and writes:
  \<^verbatim>\<open>pm['gpot']\<close>, \<^verbatim>\<open>pm['spike']\<close>, \<^verbatim>\<open>_out_ids\<close>, \<^verbatim>\<open>_out_port_dict_ids['gpot']\<close>,
  \<^verbatim>\<open>_out_port_dict['spike']\<close>, \<^verbatim>\<open>pat_ints\<close>, \<^verbatim>\<open>patterns\<close> and \<^verbatim>\<open>_out_data\<close>.
\<close>

record module =
  pm_gpot :: port_mapper
  pm_spike :: port_mapper
  out_ids :: "string list"
  out_port_dict_ids_gpot :: "string \<rightharpoonup> int list"
  out_port_dict_spike :: "string \<rightharpoonup> label list list"
  pat_ints :: "string \<rightharpoonup> int \<times> int"
  patterns :: "string \<rightharpoonup> pattern"
  out_data :: "(string \<times> real list \<times> int list) list"

text \<open>
  The body of the \<^verbatim>\<open>for\<close> statement for one destination, up to the tuple it appends.
  \<^verbatim>\<open>self.pm['spike'].get_ports_nonzero()\<close> reads an attribute of a \<^verbatim>\<open>PortMapper\<close>:
  \<open>attributes\<close> lists the attributes such an object has, and \<open>nonzero\<close> is what the method
  computes on a class that has it. \<^verbatim>\<open>list(set(a).intersection(b))\<close> lists the common elements
  once each, in an order the language does not fix; the listing is the parameter
  \<open>intersection\<close>.
\<close>

definition put_out_data_entry ::
  "string list \<Rightarrow> (port_mapper \<Rightarrow> error + label list list) \<Rightarrow>
   (label list list \<Rightarrow> label list list \<Rightarrow> label list list) \<Rightarrow> module \<Rightarrow> string \<Rightarrow>
     error + (string \<times> real list \<times> int list)"
where
  "put_out_data_entry attributes nonzero intersection m out_id =
     bind (py_getitem (out_port_dict_ids_gpot m) out_id) (\<lambda>gpot_ids.
     bind (np_take (data (pm_gpot m)) gpot_ids) (\<lambda>gpot_data.
     bind (py_getitem (out_port_dict_spike m) out_id) (\<lambda>out_spike_ports_all.
     bind (attr_lookup attributes ''get_ports_nonzero'' nonzero) (\<lambda>get_ports_nonzero.
     bind (get_ports_nonzero (pm_spike m)) (\<lambda>out_spike_ports_with_spikes.
     let out_spike_ports = intersection out_spike_ports_all out_spike_ports_with_spikes in
     bind (py_getitem (pat_ints m) out_id) (\<lambda>(from_int, to_int).
     bind (py_getitem (patterns m) out_id) (\<lambda>pat.
     bind (dest_idx pat from_int to_int ''spike'' ''spike'' out_spike_ports) (\<lambda>spike_data.
     bind (spike_pm_ports_to_inds pat to_int spike_data) (\<lambda>spike_data_ind.
     Inr (out_id, gpot_data, spike_data_ind))))))))))"

fun put_out_data_loop ::
  "string list \<Rightarrow> (port_mapper \<Rightarrow> error + label list list) \<Rightarrow>
   (label list list \<Rightarrow> label list list \<Rightarrow> label list list) \<Rightarrow> module \<Rightarrow> string list \<Rightarrow>
     error + module"
where
  "put_out_data_loop attributes nonzero intersection m [] = Inr m"
| "put_out_data_loop attributes nonzero intersection m (out_id # rest) =
     bind (put_out_data_entry attributes nonzero intersection m out_id) (\<lambda>entry.
       put_out_data_loop attributes nonzero intersection
         (m\<lparr>out_data := out_data m @ [entry]\<rparr>) rest)"

text \<open>\<^verbatim>\<open>_put_out_data\<close>: the output buffer is cleared, then filled destination by destination.\<close>

definition put_out_data ::
  "string list \<Rightarrow> (port_mapper \<Rightarrow> error + label list list) \<Rightarrow>
   (label list list \<Rightarrow> label list list \<Rightarrow> label list list) \<Rightarrow> module \<Rightarrow> error + module"
where
  "put_out_data attributes nonzero intersection m =
     put_out_data_loop attributes nonzero intersection (m\<lparr>out_data := []\<rparr>) (out_ids m)"

text \<open>
  A module with one destination \<^verbatim>\<open>'B'\<close>: two graded-potential ports, of which the second is
  wired to \<^verbatim>\<open>'B'\<close>; three spike ports with values 1, 0, 1, of which the second and third are
  wired to \<^verbatim>\<open>'B'\<close>. Its pattern renames a port \<^verbatim>\<open>('spk', k)\<close> to \<^verbatim>\<open>('in', k)\<close> and gives it the
  index \<^verbatim>\<open>k\<close>.
\<close>

definition example_pattern :: pattern where
  "example_pattern =
     \<lparr>dest_idx = (\<lambda>from_int to_int from_type to_type ports.
                    Inr (map (\<lambda>p. S ''in'' # tl p) ports)),
      spike_pm_ports_to_inds = (\<lambda>to_int ports.
                    Inr (map (\<lambda>p. case last p of I k \<Rightarrow> k | S s \<Rightarrow> 0) ports))\<rparr>"

definition example_module :: module where
  "example_module =
     \<lparr>pm_gpot = \<lparr>data = [0.5, 0.25],
                  portmap = \<lparr>nlevels = 2,
                             rows = [([S ''out'', I 0], 0), ([S ''out'', I 1], 1)]\<rparr>\<rparr>,
      pm_spike = \<lparr>data = [1, 0, 1],
                   portmap = \<lparr>nlevels = 2,
                              rows = [([S ''spk'', I 0], 0), ([S ''spk'', I 1], 1),
                                      ([S ''spk'', I 2], 2)]\<rparr>\<rparr>,
      out_ids = [''B''],
      out_port_dict_ids_gpot = [''B'' \<mapsto> [1]],
      out_port_dict_spike = [''B'' \<mapsto> [[S ''spk'', I 1], [S ''spk'', I 2]]],
      pat_ints = [''B'' \<mapsto> (0, 1)],
      patterns = [''B'' \<mapsto> example_pattern],
      out_data = [(''A'', [], [])]\<rparr>"

subsection \<open>\<^verbatim>\<open>PathLikeSelector.isdisjoint\<close>\<close>

text \<open>
  \<^verbatim>\<open>isdisjoint\<close> hands \<^verbatim>\<open>max_levels\<close> a parsed list where \<^verbatim>\<open>max_levels\<close> expects the text.
  The cache lookup \<^verbatim>\<open>self.max_levels.cache[selector]\<close> then raises \<^verbatim>\<open>TypeError\<close> (a list is
  not hashable), the bare \<^verbatim>\<open>except\<close> takes over and calls \<^verbatim>\<open>self.parse(selector)\<close> on the list:
  what ply does with it is the parameter \<open>parse_obj\<close>. If that returns, the count is
  computed and storing it under the list, \<^verbatim>\<open>self.max_levels.cache[selector] = count\<close>, raises
  \<^verbatim>\<open>TypeError\<close> again, this time uncaught.
\<close>

definition max_levels_of_list :: "(selector \<Rightarrow> error + selector) \<Rightarrow> selector \<Rightarrow> error + nat" where
  "max_levels_of_list parse_obj sel =
     bind (parse_obj sel) (\<lambda>parse_list.
     bind (py_max (map length parse_list)) (\<lambda>count.
     Inl TypeError))"

text \<open>The two collecting \<^verbatim>\<open>for\<close> statements: \<^verbatim>\<open>levels[j].append(level)\<close> on a list of \<open>n\<close> entries raises
  \<^verbatim>\<open>IndexError\<close> for a branch of more than \<open>n\<close> levels; what is collected is never used.\<close>

definition collect_levels :: "nat \<Rightarrow> selector \<Rightarrow> error + unit" where
  "collect_levels n sel = (if list_all (\<lambda>b. length b \<le> n) sel then Inr () else Inl IndexError)"

text \<open>
  \<^verbatim>\<open>isdisjoint(self, s0, s1)\<close>. The body reads the name \<^verbatim>\<open>p\<close>, which is neither a parameter
  nor assigned in the body: \<open>namespace\<close> lists the global names, and \<open>p\<close> is the parser
  the name stands for where it is bound. The documented result is a \<^verbatim>\<open>bool\<close>; the body ends
  without a \<^verbatim>\<open>return\<close>, so a call that reaches the end returns \<^verbatim>\<open>None\<close>.
\<close>

definition isdisjoint ::
  "string list \<Rightarrow> parser \<Rightarrow> (selector \<Rightarrow> error + selector) \<Rightarrow> string \<Rightarrow> string \<Rightarrow>
     error + bool option"
where
  "isdisjoint namespace p parse_obj s0 s1 =
     (if re_search ''*'' s0 \<or> re_search ''*'' s1 then Inl AssertionError
      else
        bind (name_lookup namespace ''p'' p) (\<lambda>p_bound.
        bind (p_bound s0) (\<lambda>p0.
        bind (name_lookup namespace ''p'' p) (\<lambda>p_bound.
        bind (p_bound s1) (\<lambda>p1.
        bind (max_levels_of_list parse_obj p0) (\<lambda>m0.
        bind (max_levels_of_list parse_obj p1) (\<lambda>m1.
        if m0 \<noteq> m1 then Inl AssertionError
        else
          bind (max_levels_of_list parse_obj p0) (\<lambda>n0.
          bind (collect_levels n0 p0) (\<lambda>levels_0.
          bind (max_levels_of_list parse_obj p1) (\<lambda>n1.
          bind (collect_levels n1 p1) (\<lambda>levels_1.
          Inr None)))))))))))"

subsection \<open>\<^verbatim>\<open>Module.__init__\<close>\<close>

text \<open>
  The constructor of \<^verbatim>\<open>PortMapper\<close> on arguments of any of the types \<^verbatim>\<open>Module.__init__\<close> deals
  with: a \<^verbatim>\<open>str\<close>, a list of \<^verbatim>\<open>str\<close>, a one-dimensional \<^verbatim>\<open>numpy.ndarray\<close> of numbers. The first
  two \<^verbatim>\<open>assert\<close>s: \<^verbatim>\<open>np.ndim\<close> of a \<^verbatim>\<open>str\<close> is 0, and a list is not an \<^verbatim>\<open>ndarray\<close>. With an array
  for \<^verbatim>\<open>selectors\<close>, \<^verbatim>\<open>make_index\<close> is called on each number and \<^verbatim>\<open>re.search\<close> raises
  \<^verbatim>\<open>TypeError\<close> (as \<^verbatim>\<open>reduce\<close> does on an empty array).
\<close>

datatype pyval = PyStr string | PyStrList "string list" | PyArray "real list"

definition PortMapper_new :: "parser \<Rightarrow> pyval \<Rightarrow> pyval \<Rightarrow> error + port_mapper" where
  "PortMapper_new parse data_arg selectors_arg =
     (case data_arg of
        PyStr s \<Rightarrow> Inl AssertionError
      | PyStrList ss \<Rightarrow> Inl AssertionError
      | PyArray d \<Rightarrow>
          (case selectors_arg of
             PyStr s \<Rightarrow> PortMapper_init parse d (Str s) None
           | PyStrList ss \<Rightarrow> PortMapper_init parse d (StrList ss) None
           | PyArray xs \<Rightarrow> Inl TypeError))"

fun of_selectors :: "selectors \<Rightarrow> pyval" where
  "of_selectors (Str s) = PyStr s"
| "of_selectors (StrList ss) = PyStrList ss"

text \<open>
  What \<^verbatim>\<open>Module.__init__\<close> calls outside \<^verbatim>\<open>core.py\<close> and \<^verbatim>\<open>plsel.py\<close>, each with the error it
  raises, if any: the id generator, the constructor of the base class and the logger
  (\<open>base_init\<close>), the construction and the updates of
  the \<^verbatim>\<open>Interface\<close>, and the numbers of graded-potential and spike ports the interface
  reports. \<^verbatim>\<open>is_in\<close> and \<^verbatim>\<open>are_disjoint\<close> are what the attributes of those names compute on
  a class that has them.
\<close>

record collaborators =
  base_init :: "error option"
  interface_init :: "error option"
  is_in :: "selectors \<Rightarrow> selectors \<Rightarrow> error + bool"
  are_disjoint :: "selectors \<Rightarrow> selectors \<Rightarrow> error + bool"
  interface_set_types :: "error option"
  n_gpot_ports :: nat
  n_spike_ports :: nat

definition raise_if :: "error option \<Rightarrow> error + unit" where
  "raise_if outcome = (case outcome of None \<Rightarrow> Inr () | Some e \<Rightarrow> Inl e)"

definition py_assert :: "bool \<Rightarrow> error + unit" where
  "py_assert b = (if b then Inr () else Inl AssertionError)"

text \<open>
  The arguments as the docstring types them: selectors are \<^verbatim>\<open>str\<close> or sequences of \<^verbatim>\<open>str\<close>,
  the data are arrays; \<open>port_time\<close> is \<open>None\<close> when the caller leaves it to the default.

  Creating a module: the \<^verbatim>\<open>def\<close> evaluates the default \<^verbatim>\<open>port_time=PORT_TIME\<close> in the globals
  of \<^verbatim>\<open>core.py\<close> (\<open>namespace\<close>; \<open>PORT_TIME\<close> is the value where the name is bound), then the
  body runs up to the two \<^verbatim>\<open>PortMapper\<close>s; \<open>attributes\<close> is what \<^verbatim>\<open>PathLikeSelector\<close> defines.
\<close>

record module_args =
  selector :: selectors
  sel_gpot :: selectors
  sel_spike :: selectors
  data_gpot :: "real list"
  data_spike :: "real list"
  columns :: "string list"
  port_data :: int
  port_ctrl :: int
  port_time :: "int option"

definition Module_init ::
  "string list \<Rightarrow> int \<Rightarrow> string list \<Rightarrow> collaborators \<Rightarrow> parser \<Rightarrow> module_args \<Rightarrow>
     error + (port_mapper \<times> port_mapper)"
where
  "Module_init namespace PORT_TIME attributes collab parse args =
     bind (name_lookup namespace ''PORT_TIME'' PORT_TIME) (\<lambda>default_port_time.
     bind (py_assert (''interface'' \<in> set (columns args))) (\<lambda>_.
     bind (py_assert (''io'' \<in> set (columns args))) (\<lambda>_.
     bind (py_assert (''type'' \<in> set (columns args))) (\<lambda>_.
     bind (raise_if (base_init collab)) (\<lambda>_.
     if port_data args = port_ctrl args then Inl ValueError
     else
       let time_port = (case port_time args of None \<Rightarrow> default_port_time | Some t \<Rightarrow> t) in
       if time_port = port_ctrl args \<or> time_port = port_data args then Inl ValueError
       else
         bind (raise_if (interface_init collab)) (\<lambda>_.
         bind (attr_lookup attributes ''is_in'' (is_in collab)) (\<lambda>f.
         bind (f (sel_gpot args) (selector args)) (\<lambda>ok.
         bind (py_assert ok) (\<lambda>_.
         bind (attr_lookup attributes ''is_in'' (is_in collab)) (\<lambda>f.
         bind (f (sel_spike args) (selector args)) (\<lambda>ok.
         bind (py_assert ok) (\<lambda>_.
         bind (attr_lookup attributes ''are_disjoint'' (are_disjoint collab)) (\<lambda>f.
         bind (f (sel_gpot args) (sel_spike args)) (\<lambda>ok.
         bind (py_assert ok) (\<lambda>_.
         bind (raise_if (interface_set_types collab)) (\<lambda>_.
         bind (py_assert (length (data_gpot args) = n_gpot_ports collab)) (\<lambda>_.
         bind (py_assert (length (data_spike args) = n_spike_ports collab)) (\<lambda>_.
         bind (PortMapper_new parse (of_selectors (sel_gpot args)) (PyArray (data_gpot args)))
           (\<lambda>pm_gpot.
         bind (PortMapper_new parse (of_selectors (sel_spike args)) (PyArray (data_spike args)))
           (\<lambda>pm_spike.
         Inr (pm_gpot, pm_spike)))))))))))))))))))))"

subsection \<open>Selector texts used in the examples\<close>

text \<open>
  What the parser returns on the selector texts of the examples below (the class docstring
  and the tests of \<^verbatim>\<open>plsel.py\<close> show texts of these shapes); on any other text this table
  answers with the parser's \<^verbatim>\<open>ValueError\<close>.
\<close>

definition example_parses :: "(string \<times> selector) list" where
  "example_parses =
     [(''/foo/bar'', [[Lit (S ''foo''), Lit (S ''bar'')]]),
      (''/foo/bar,/foo/bar'',
         [[Lit (S ''foo''), Lit (S ''bar'')], [Lit (S ''foo''), Lit (S ''bar'')]]),
      (''/foo/bar[0:2],/foo/baz[0:2]'',
         [[Lit (S ''foo''), Lit (S ''bar''), Ivl 0 (Some 2)],
          [Lit (S ''foo''), Lit (S ''baz''), Ivl 0 (Some 2)]]),
      (''/foo/*[0:2]'', [[Lit (S ''foo''), Lit (S ''*''), Ivl 0 (Some 2)]]),
      (''/a/0,/b/0,/c/0'',
         [[Lit (S ''a''), Lit (I 0)], [Lit (S ''b''), Lit (I 0)], [Lit (S ''c''), Lit (I 0)]]),
      (''/a/*,/b/*,/c/*'',
         [[Lit (S ''a''), Lit (S ''*'')], [Lit (S ''b''), Lit (S ''*'')],
          [Lit (S ''c''), Lit (S ''*'')]]),
      (''/bar/0/1'', [[Lit (S ''bar''), Lit (I 0), Lit (I 1)]]),
      (''/foo/0/*'', [[Lit (S ''foo''), Lit (I 0), Lit (S ''*'')]]),
      (''/a/0,/a/1'', [[Lit (S ''a''), Lit (I 0)], [Lit (S ''a''), Lit (I 1)]]),
      (''/a/0,/a/1,/a/2'',
         [[Lit (S ''a''), Lit (I 0)], [Lit (S ''a''), Lit (I 1)], [Lit (S ''a''), Lit (I 2)]]),
      (''/x,/y,/z'', [[Lit (S ''x'')], [Lit (S ''y'')], [Lit (S ''z'')]])]"

definition example_parse :: parser where
  "example_parse s =
     (case map_of example_parses s of None \<Rightarrow> Inl ValueError | Some pl \<Rightarrow> Inr pl)"

subsection \<open>The membership test in the words of the specification\<close>

text \<open>A level matcher accepts a label: the wildcard accepts anything, a literal requires
  equality, a set requires membership, an interval requires \<open>lo \<le> value < hi\<close>.\<close>

fun level_accepts :: "token \<Rightarrow> label \<Rightarrow> bool" where
  "level_accepts (Lit l) v = (l = S ''*'' \<or> v = l)"
| "level_accepts (Lst ls) v = (v \<in> set ls)"
| "level_accepts (Ivl lo hi) (I v) = (lo \<le> v \<and> (case hi of None \<Rightarrow> True | Some h \<Rightarrow> v < h))"
| "level_accepts (Ivl lo hi) (S s) = False"

text \<open>A branch accepts a tuple when each of its matchers accepts the element at its
  position; elements beyond the branch are not looked at.\<close>

definition branch_accepts :: "token list \<Rightarrow> label list \<Rightarrow> bool" where
  "branch_accepts branch row_sub =
     list_all2 level_accepts branch (take (length branch) row_sub)"

subsection \<open>What the membership test decides\<close>

text \<open>
  The outcome of one pass of \<^verbatim>\<open>_select_test\<close> for a token and the row element it reads: as
  the specification says for a wildcard, a set, an interval and a literal of type \<^verbatim>\<open>int\<close> or
  \<^verbatim>\<open>str\<close>; a literal of another type is passed whatever the element.
\<close>

fun token_accepts :: "token \<Rightarrow> label \<Rightarrow> bool" where
  "token_accepts (Lit l) v = (l = S ''*'' \<or> v = l \<or> \<not> type_in_int_str l)"
| "token_accepts (Lst ls) v = (v \<in> set ls)"
| "token_accepts (Ivl lo hi) v = (label_ge v lo \<and> label_lt v hi)"

definition branch_matches :: "token list \<Rightarrow> label list \<Rightarrow> bool" where
  "branch_matches branch row_sub =
     list_all2 token_accepts branch (take (length branch) row_sub)"

section \<open>Properties\<close>

subsection \<open>The membership test\<close>

lemma token_test_in_range:
  "i < length row_sub \<Longrightarrow> token_test row_sub i tok = Inr (token_accepts tok (row_sub ! i))"
proof (cases tok)
  case (Lit l)
  assume "i < length row_sub"
  then show ?thesis using Lit by (auto simp: token_test_def py_index_def)
next
  case (Lst ls)
  assume "i < length row_sub"
  then show ?thesis using Lst by (simp add: token_test_def py_index_def)
next
  case (Ivl lo hi)
  assume "i < length row_sub"
  then show ?thesis using Ivl by (simp add: token_test_def py_index_def)
qed

lemma token_list_test_in_range:
  "i + length branch \<le> length row_sub \<Longrightarrow>
   token_list_test row_sub i branch =
     Inr (list_all2 token_accepts branch (take (length branch) (drop i row_sub)))"
proof (induction branch arbitrary: i)
  case Nil
  then show ?case by simp
next
  case (Cons tok toks)
  then have i: "i < length row_sub" and rest: "Suc i + length toks \<le> length row_sub"
    by simp_all
  have split: "take (Suc (length toks)) (drop i row_sub) =
      row_sub ! i # take (length toks) (drop (Suc i) row_sub)"
    using i by (simp add: Cons_nth_drop_Suc [symmetric])
  show ?case
    using Cons.IH [OF rest] i by (simp add: token_test_in_range split)
qed

lemma parse_list_test_in_range:
  "(\<forall>b \<in> set parse_list. length b \<le> length row_sub) \<Longrightarrow>
   parse_list_test row_sub parse_list = Inr (\<exists>b \<in> set parse_list. branch_matches b row_sub)"
proof (induction parse_list)
  case Nil
  then show ?case by simp
next
  case (Cons b rest)
  then have "length b \<le> length row_sub" by simp
  then have "token_list_test row_sub 0 b = Inr (branch_matches b row_sub)"
    using token_list_test_in_range [of 0 b row_sub] by (simp add: branch_matches_def)
  then show ?case using Cons by simp
qed

text \<open>On plain literals the test decides what the specification says.\<close>

lemma token_accepts_plain:
  "plain tok \<Longrightarrow> token_accepts tok v = level_accepts tok v"
proof (cases tok)
  case (Lit l)
  assume "plain tok"
  with Lit show ?thesis by auto
next
  case (Lst ls)
  then show ?thesis by simp
next
  case (Ivl lo hi)
  then show ?thesis by (cases v; cases hi) simp_all
qed

lemma branch_matches_plain:
  assumes "list_all plain branch"
  shows "branch_matches branch row_sub = branch_accepts branch row_sub"
proof -
  have "list_all2 token_accepts branch xs = list_all2 level_accepts branch xs" for xs
    using assms
  proof (induction branch arbitrary: xs)
    case Nil
    then show ?case by simp
  next
    case (Cons tok toks)
    then show ?case by (cases xs) (simp_all add: token_accepts_plain)
  qed
  then show ?thesis by (simp add: branch_matches_def branch_accepts_def)
qed

lemma branch_accepts_nth:
  "length branch \<le> length row_sub \<Longrightarrow>
   branch_accepts branch row_sub \<longleftrightarrow>
     (\<forall>i < length branch. level_accepts (branch ! i) (row_sub ! i))"
  by (simp add: branch_accepts_def list_all2_conv_all_nth)

lemma py_slice_nth:
  "0 \<le> s \<Longrightarrow> i < length (py_slice row (Some s) stop) \<Longrightarrow>
   py_slice row (Some s) stop ! i = row ! (nat s + i)"
proof -
  assume s: "0 \<le> s" and i: "i < length (py_slice row (Some s) stop)"
  define lo where "lo = slice_bound (length row) s"
  define hi where "hi = (case stop of None \<Rightarrow> length row | Some k \<Rightarrow> slice_bound (length row) k)"
  have sl: "py_slice row (Some s) stop = take (hi - lo) (drop lo row)"
    by (simp add: py_slice_def lo_def hi_def Let_def)
  from i have i': "i < hi - lo" and il: "lo + i < length row"
    by (auto simp: sl)
  from il have "nat s \<le> length row"
    using s by (simp add: lo_def slice_bound_def min_def split: if_splits)
  then have "lo = nat s"
    using s by (simp add: lo_def slice_bound_def)
  then show ?thesis using i' il by (simp add: sl)
qed

subsection \<open>Claim C5: the membership test\<close>

text \<open>
  C5, as the code has it. For every identifier tuple \<open>row\<close>, every parsed selector with
  plain literals (each integer literal an \<^verbatim>\<open>int\<close>, not above \<^verbatim>\<open>sys.maxint\<close>) and every level
  sub-range \<open>[start, stop)\<close> in which no branch has more matchers than the sub-range has
  levels, \<^verbatim>\<open>_select_test\<close> returns a boolean and accepts the tuple iff some branch accepts
  it; a branch accepts iff each of its matchers accepts the element at its position of the
  sub-range (wildcard: anything, literal: equality, set: membership, interval:
  \<open>lo \<le> value < hi\<close>), and the levels beyond a shorter branch are not checked.
\<close>

theorem select_test_iff_some_branch_accepts:
  assumes "\<forall>b \<in> set parse_list. length b \<le> length (py_slice row start stop)"
    and "plain_literals parse_list"
  shows "select_test row parse_list start stop =
           Inr (\<exists>b \<in> set parse_list. branch_accepts b (py_slice row start stop))"
proof -
  have "branch_matches b (py_slice row start stop) = branch_accepts b (py_slice row start stop)"
    if "b \<in> set parse_list" for b
    using that assms(2) by (simp add: plain_literals_def list_all_iff branch_matches_plain)
  then have "(\<exists>b \<in> set parse_list. branch_matches b (py_slice row start stop)) =
      (\<exists>b \<in> set parse_list. branch_accepts b (py_slice row start stop))"
    by blast
  with assms(1) show ?thesis
    by (simp add: select_test_def parse_list_test_in_range)
qed

theorem select_test_iff_some_branch_accepts_witness:
  "list_all (\<lambda>b. length b \<le> length (py_slice [S ''bar'', I 5, S ''x'', I 7] (Some 0) (Some 3)))
     [[Lit (S ''foo''), Ivl 1 None], [asterisk, Lst [I 0, I 5], Lit (S ''x'')]]
   \<and> plain_literals [[Lit (S ''foo''), Ivl 1 None], [asterisk, Lst [I 0, I 5], Lit (S ''x'')]]
   \<and> select_test [S ''bar'', I 5, S ''x'', I 7]
        [[Lit (S ''foo''), Ivl 1 None], [asterisk, Lst [I 0, I 5], Lit (S ''x'')]]
        (Some 0) (Some 3) = Inr True
   \<and> select_test [S ''bar'', I 5, S ''y'', I 7]
        [[Lit (S ''foo''), Ivl 1 None], [asterisk, Lst [I 0, I 5], Lit (S ''x'')]]
        (Some 0) (Some 3) = Inr False"
  using select_test_iff_some_branch_accepts
    [of "[[Lit (S ''foo''), Ivl 1 None], [asterisk, Lst [I 0, I 5], Lit (S ''x'')]]"
        "[S ''bar'', I 5, S ''x'', I 7]" "Some 0" "Some 3"]
    select_test_iff_some_branch_accepts
    [of "[[Lit (S ''foo''), Ivl 1 None], [asterisk, Lst [I 0, I 5], Lit (S ''x'')]]"
        "[S ''bar'', I 5, S ''y'', I 7]" "Some 0" "Some 3"]
  by (simp add: py_slice_def slice_bound_def branch_accepts_def asterisk_def Let_def
      plain_literals_def)

text \<open>
  As C5 is worded (every parsed selector) it fails where a branch is longer than the
  sub-range: on the one-level tuple \<^verbatim>\<open>('a',)\<close> the selector of the two branches \<^verbatim>\<open>['a', 'b']\<close>
  and \<^verbatim>\<open>['a']\<close> has the accepting branch \<^verbatim>\<open>['a']\<close>, but the test reads \<^verbatim>\<open>row_sub[1]\<close> for
  the first branch and raises \<^verbatim>\<open>IndexError\<close>.
\<close>

theorem select_test_long_branch_counterexample:
  "select_test [S ''a''] [[Lit (S ''a''), Lit (S ''b'')], [Lit (S ''a'')]] None None
     = Inl IndexError
   \<and> branch_accepts [Lit (S ''a'')] (py_slice [S ''a''] None None)"
  by (simp add: select_test_def py_slice_def token_test_def py_index_def branch_accepts_def
    Let_def)

text \<open>An integer literal above \<^verbatim>\<open>sys.maxint\<close> is a \<^verbatim>\<open>long\<close>: the test passes it on any row.\<close>

lemma select_test_long_literal:
  "select_test [I 5] [[Lit (I 9223372036854775808)]] None None = Inr True
   \<and> select_test [I 5] [[Lit (I 9223372036854775807)]] None None = Inr False"
  by (simp add: select_test_def py_slice_def token_test_def py_index_def sys_maxint_def Let_def)

subsection \<open>Expansion, products and index construction\<close>

text \<open>\<^verbatim>\<open>itertools.product\<close> lists the cartesian product, in the order of \<^const>\<open>product_lists\<close>.\<close>

lemma itertools_product_product_lists: "itertools_product xss = product_lists xss"
  by (induction xss) simp_all

lemma product_lists_member:
  "x \<in> set (product_lists xss) \<longleftrightarrow> list_all2 (\<lambda>v xs. v \<in> set xs) x xss"
proof (induction xss arbitrary: x)
  case Nil
  then show ?case by simp
next
  case (Cons xs xss)
  then show ?case by (cases x) auto
qed




lemma branch_ids_length:
  "x \<in> set (branch_ids b) \<Longrightarrow> length x = length b"
  by (auto simp: branch_ids_def product_lists_member dest: list_all2_lengthD)

lemma mapM_level_list:
  "list_all bounded branch \<Longrightarrow> mapM level_list branch = Inr (map matcher_elements branch)"
proof (induction branch)
  case Nil
  then show ?case by simp
next
  case (Cons tok toks)
  then have "bounded tok" and "mapM level_list toks = Inr (map matcher_elements toks)"
    by simp_all
  then show ?case by (cases tok rule: bounded.cases) simp_all
qed






lemma mapM_Inl_member:
  "x \<in> set xs \<Longrightarrow> f x = Inl e \<Longrightarrow> \<exists>e'. mapM f xs = Inl e'"
  by (induction xs) (auto split: sum.splits)

lemma make_index_branch_resolvable:
  "list_all bounded b \<Longrightarrow> 2 \<le> length b \<Longrightarrow>
   make_index_branch b = Inr \<lparr>mi_nlevels = length b, mi_tuples = branch_ids b\<rparr>"
  by (simp add: make_index_branch_def mapM_level_list branch_ids_def
      itertools_product_product_lists)

lemma mapM_make_index_branch:
  "resolvable pl \<Longrightarrow> list_all (\<lambda>b. length b = d) pl \<Longrightarrow> 2 \<le> d \<Longrightarrow>
   mapM make_index_branch pl =
     Inr (map (\<lambda>b. \<lparr>mi_nlevels = d, mi_tuples = branch_ids b\<rparr>) pl)"
  unfolding resolvable_def
  by (induction pl) (auto simp: make_index_branch_resolvable)

lemma remdups_constant:
  "xs \<noteq> [] \<Longrightarrow> list_all (\<lambda>x. f x = d) xs \<Longrightarrow> remdups (map f xs) = [d]"
proof (induction xs)
  case Nil
  then show ?case by simp
next
  case (Cons x xs)
  show ?case
  proof (cases "xs = []")
    case True
    with Cons.prems show ?thesis by simp
  next
    case False
    with Cons have "remdups (map f xs) = [d]" by simp
    moreover have "f x \<in> set (map f xs)"
      using False Cons.prems by (cases xs) auto
    ultimately show ?thesis using Cons.prems by simp
  qed
qed

text \<open>Appending indexes whose tuples all have the depth of the first is concatenation.\<close>

lemma take_all_tuples:
  "list_all (\<lambda>x. length x \<le> d) xs \<Longrightarrow> map (take d) xs = xs"
  by (induction xs) simp_all

lemma foldl_MultiIndex_append:
  "list_all (\<lambda>x. list_all (\<lambda>t. length t \<le> mi_nlevels a) (mi_tuples x)) xs \<Longrightarrow>
   foldl MultiIndex_append a xs = a\<lparr>mi_tuples := mi_tuples a @ concat (map mi_tuples xs)\<rparr>"
  by (induction xs arbitrary: a) (simp_all add: MultiIndex_append_def take_all_tuples)

lemma py_reduce_MultiIndex_append:
  assumes "xs \<noteq> []" and "list_all (\<lambda>x. list_all (\<lambda>t. length t \<le> d) (f x)) xs"
  shows "py_reduce MultiIndex_append (map (\<lambda>x. \<lparr>mi_nlevels = d, mi_tuples = f x\<rparr>) xs) =
     Inr \<lparr>mi_nlevels = d, mi_tuples = concat (map f xs)\<rparr>"
proof (cases xs)
  case Nil
  with assms show ?thesis by simp
next
  case (Cons y ys)
  with assms(2) have "list_all (\<lambda>x. list_all (\<lambda>t. length t \<le> d) (f x)) ys" by simp
  then have "list_all (\<lambda>x. list_all (\<lambda>t. length t \<le> mi_nlevels \<lparr>mi_nlevels = d, mi_tuples = f y\<rparr>)
                (mi_tuples x)) (map (\<lambda>x. \<lparr>mi_nlevels = d, mi_tuples = f x\<rparr>) ys)"
    by (simp add: list_all_iff)
  then show ?thesis
    using Cons by (simp add: foldl_MultiIndex_append comp_def)
qed


lemma make_index_resolvable:
  assumes "\<not> re_search ''*'' s" and "\<not> re_search '':]'' s" and "parse s = Inr pl"
    and "pl \<noteq> []" and "resolvable pl" and "list_all (\<lambda>b. length b = d) pl" and "2 \<le> d"
  shows "make_index parse s = Inr \<lparr>mi_nlevels = d, mi_tuples = expand_ids pl\<rparr>"
proof -
  have "remdups (map mi_nlevels (map (\<lambda>b. \<lparr>mi_nlevels = d, mi_tuples = branch_ids b\<rparr>) pl)) = [d]"
    using assms(4) by (simp add: comp_def remdups_constant list_all_iff)
  moreover have "list_all (\<lambda>b. list_all (\<lambda>t. length t \<le> d) (branch_ids b)) pl"
    using assms(6) by (auto simp: list_all_iff dest: branch_ids_length)
  ultimately show ?thesis
    using assms
    by (simp add: make_index_def mapM_make_index_branch py_reduce_MultiIndex_append
        expand_ids_def del: map_map)
qed

subsection \<open>Evaluating the examples\<close>

lemmas example_eval = example_parse_def example_parses_def make_index_def make_index_branch_def
  PortMapper_init_def MultiIndex_append_def select_def get_tuples_def names_slice_def
  py_slice_def select_test_def token_test_def py_index_def PortMapper_get_def
  frame_values_def np_position_def sys_maxint_def Let_def upto.simps

text \<open>The other operators on the examples of the class docstring: \<^verbatim>\<open>(/foo,/bar)+/baz\<close> is
  \<^verbatim>\<open>/foo/baz,/bar/baz\<close>, and \<^verbatim>\<open>/foo/bar[0]\<close> is \<^verbatim>\<open>/foo/bar/0\<close>.\<close>

lemma plus_example:
  "p_selector_plus_selector
     (p_selector_paren_selector
        (p_selector_comma_selector (p_selector_level (Lit (S ''foo'')))
                                   (p_selector_level (Lit (S ''bar'')))))
     (p_selector_level (Lit (S ''baz'')))
   = [[Lit (S ''foo''), Lit (S ''baz'')], [Lit (S ''bar''), Lit (S ''baz'')]]"
  by (simp add: p_selector_plus_selector_def p_selector_paren_selector_def
      p_selector_comma_selector_def p_selector_level_def)

lemma level_example:
  "p_selector_selector_level
     (p_selector_selector_level (p_selector_level (Lit (S ''foo''))) (Lit (S ''bar'')))
     (Lit (I 0))
   = [[Lit (S ''foo''), Lit (S ''bar''), Lit (I 0)]]
   \<and> p_selector_selector_plus_level (p_selector_level (Lit (S ''foo''))) (Lit (S ''bar''))
   = [[Lit (S ''foo''), Lit (S ''bar'')]]"
  by (simp add: p_selector_selector_level_def p_selector_selector_plus_level_def
      p_selector_level_def)

text \<open>The table of a buffer of four values mapped to \<^verbatim>\<open>/foo/bar[0:2],/foo/baz[0:2]\<close>.\<close>

lemma table_example:
  "PortMapper_init example_parse [0, 0, 0, 0] (Str ''/foo/bar[0:2],/foo/baz[0:2]'') None
     = Inr \<lparr>data = [0, 0, 0, 0],
            portmap = \<lparr>nlevels = 3,
                       rows = [([S ''foo'', S ''bar'', I 0], 0), ([S ''foo'', S ''bar'', I 1], 1),
                               ([S ''foo'', S ''baz'', I 0], 2), ([S ''foo'', S ''baz'', I 1], 3)]\<rparr>\<rparr>"
  by (simp add: example_eval)

subsection \<open>Claim C4: the zip operator\<close>




text \<open>An integer literal above \<^verbatim>\<open>sys.maxint\<close> is not wrapped, and the product raises.\<close>

lemma dotplus_long_literal:
  "p_selector_dotplus_selector [[Lit (S ''foo'')]] [[Lit (I 9223372036854775808)]]
     = Inl TypeError
   \<and> p_selector_dotplus_selector [[Lit (S ''foo'')]] [[Lit (I 9223372036854775807)]]
     = Inr [[Lit (S ''foo''), Lit (I 9223372036854775807)]]"
  by (simp add: p_selector_dotplus_selector_def sys_maxint_def)

subsection \<open>Claim C2: repeated identifiers\<close>




subsection \<open>Selection from a table\<close>

lemma py_slice_None: "py_slice xs None None = xs"
  by (simp add: py_slice_def)

lemma select_rows_filter:
  "list_all (\<lambda>r. crit (fst r) = Inr (P (fst r))) rs \<Longrightarrow>
   select_rows crit rs = Inr (filter (\<lambda>r. P (fst r)) rs)"
  by (induction rs) simp_all

lemma mapM_np_position:
  "list_all (\<lambda>k. 0 \<le> k \<and> k < int n) ks \<Longrightarrow> mapM (np_position n) ks = Inr (map nat ks)"
  by (induction ks) (simp_all add: np_position_def)

text \<open>Where the guard of \<^verbatim>\<open>select\<close> lets the selector pass and no branch is deeper than the
  table, \<^verbatim>\<open>select\<close> returns the rows that some branch matches.\<close>

lemma select_in_range:
  assumes parsed: "parse s = Inr pl"
    and guard: "length pl \<le> nlevels df"
    and depth: "list_all (\<lambda>b. length b \<le> nlevels df) pl"
    and table: "list_all (\<lambda>r. length (fst r) = nlevels df) (rows df)"
  shows "select parse df s None None =
           Inr (df\<lparr>rows := filter (\<lambda>r. \<exists>b \<in> set pl. branch_matches b (fst r)) (rows df)\<rparr>)"
proof -
  have "list_all (\<lambda>r. select_test (fst r) pl None None =
            Inr (\<exists>b \<in> set pl. branch_matches b (fst r))) (rows df)"
    using depth table
    by (auto simp: list_all_iff select_test_def py_slice_None
        intro!: parse_list_test_in_range)
  then have "select_rows (\<lambda>row. select_test row pl None None) (rows df) =
      Inr (filter (\<lambda>r. \<exists>b \<in> set pl. branch_matches b (fst r)) (rows df))"
    by (rule select_rows_filter)
  then show ?thesis
    using parsed guard by (simp add: select_def names_slice_def py_slice_None)
qed

lemma make_index_asterisk:
  "re_search ''*'' s \<Longrightarrow> make_index parse s = Inl AssertionError"
  by (simp add: make_index_def)

subsection \<open>Claim C6: wildcards at construction time and at query time\<close>

text \<open>
  Every selector text containing \<^verbatim>\<open>*\<close> fails in \<^verbatim>\<open>make_index\<close>, hence in the construction of
  a \<^verbatim>\<open>PortMapper\<close> from it alone or among several texts.
\<close>

lemma wildcard_fails_construction:
  assumes "re_search ''*'' s"
  shows "make_index parse s = Inl AssertionError"
    and "PortMapper_init parse data_arg (Str s) idx_arg = Inl AssertionError"
    and "\<exists>e. PortMapper_init parse data_arg (StrList (before @ s # after)) idx_arg = Inl e"
proof -
  show mk: "make_index parse s = Inl AssertionError"
    using assms by (rule make_index_asterisk)
  then show "PortMapper_init parse data_arg (Str s) idx_arg = Inl AssertionError"
    by (simp add: PortMapper_init_def)
  obtain e where "mapM (make_index parse) (before @ s # after) = Inl e"
    using mapM_Inl_member [of s "before @ s # after" "make_index parse" AssertionError] mk
    by auto
  then show "\<exists>e. PortMapper_init parse data_arg (StrList (before @ s # after)) idx_arg = Inl e"
    by (simp add: PortMapper_init_def)
qed

text \<open>
  Against an existing table (identifiers of the table's depth, positions inside the
  buffer) a query is not refused for its wildcard: where the guard of \<^verbatim>\<open>select\<close> lets the
  selector pass and no branch is deeper than the table, \<^verbatim>\<open>select\<close>, \<^verbatim>\<open>get\<close> and \<^verbatim>\<open>set\<close>
  succeed and address the rows some branch matches.
\<close>

lemma query_when_guard_passes:
  assumes parsed: "parse s = Inr pl"
    and guard: "length pl \<le> nlevels (portmap pm)"
    and depth: "list_all (\<lambda>b. length b \<le> nlevels (portmap pm)) pl"
    and table: "list_all (\<lambda>r. length (fst r) = nlevels (portmap pm) \<and>
                     0 \<le> snd r \<and> snd r < int (length (data pm))) (rows (portmap pm))"
    and matched: "matched = filter (\<lambda>r. \<exists>b \<in> set pl. branch_matches b (fst r)) (rows (portmap pm))"
  shows "select parse (portmap pm) s None None = Inr ((portmap pm)\<lparr>rows := matched\<rparr>)"
    and "PortMapper_get parse pm s = Inr (map (\<lambda>r. data pm ! nat (snd r)) matched)"
    and "PortMapper_set parse pm s (Scalar v) =
           Inr (pm\<lparr>data := assign (data pm) (map (\<lambda>r. (nat (snd r), v)) matched)\<rparr>)"
proof -
  have "list_all (\<lambda>r. length (fst r) = nlevels (portmap pm)) (rows (portmap pm))"
    using table by (simp add: list_all_iff)
  then show sel: "select parse (portmap pm) s None None = Inr ((portmap pm)\<lparr>rows := matched\<rparr>)"
    unfolding matched
    using select_in_range [of parse s pl "portmap pm"] parsed guard depth by simp
  have "list_all (\<lambda>k. 0 \<le> k \<and> k < int (length (data pm))) (map snd matched)"
    using table by (auto simp: matched list_all_iff)
  then have pos: "mapM (np_position (length (data pm))) (map snd matched) =
      Inr (map nat (map snd matched))"
    by (rule mapM_np_position)
  show "PortMapper_get parse pm s = Inr (map (\<lambda>r. data pm ! nat (snd r)) matched)"
    by (simp add: PortMapper_get_def sel frame_values_def pos comp_def)
  show "PortMapper_set parse pm s (Scalar v) =
           Inr (pm\<lparr>data := assign (data pm) (map (\<lambda>r. (nat (snd r), v)) matched)\<rparr>)"
    by (simp add: PortMapper_set_def sel frame_values_def pos comp_def)
qed

text \<open>The buffer \<^verbatim>\<open>[0,0,0,0]\<close> mapped to \<^verbatim>\<open>/foo/bar[0:2],/foo/baz[0:2]\<close>: setting \<^verbatim>\<open>/foo/*[0:2]\<close>
  to 1 and reading it back gives four ones.\<close>

lemma wildcard_query_example:
  "PortMapper_set example_parse
        \<lparr>data = [0, 0, 0, 0],
         portmap = \<lparr>nlevels = 3,
                    rows = [([S ''foo'', S ''bar'', I 0], 0), ([S ''foo'', S ''bar'', I 1], 1),
                            ([S ''foo'', S ''baz'', I 0], 2), ([S ''foo'', S ''baz'', I 1], 3)]\<rparr>\<rparr>
        ''/foo/*[0:2]'' (Scalar 1)
      = Inr \<lparr>data = [1, 1, 1, 1],
         portmap = \<lparr>nlevels = 3,
                    rows = [([S ''foo'', S ''bar'', I 0], 0), ([S ''foo'', S ''bar'', I 1], 1),
                            ([S ''foo'', S ''baz'', I 0], 2), ([S ''foo'', S ''baz'', I 1], 3)]\<rparr>\<rparr>
   \<and> PortMapper_get example_parse
        \<lparr>data = [1, 1, 1, 1],
         portmap = \<lparr>nlevels = 3,
                    rows = [([S ''foo'', S ''bar'', I 0], 0), ([S ''foo'', S ''bar'', I 1], 1),
                            ([S ''foo'', S ''baz'', I 0], 2), ([S ''foo'', S ''baz'', I 1], 3)]\<rparr>\<rparr>
        ''/foo/*[0:2]''
      = Inr [1, 1, 1, 1]"
  by (simp add: example_eval PortMapper_set_def)

text \<open>
  C6 at a failing input. The buffer of length three is mapped to \<^verbatim>\<open>/a/0,/b/0,/c/0\<close>, a table of
  two levels. The selector \<^verbatim>\<open>/a/*,/b/*,/c/*\<close> contains a wildcard and fails in \<^verbatim>\<open>make_index\<close>,
  as C6 says; it is two levels deep and each of its branches matches a row of the table
  (\<^verbatim>\<open>get_tuples\<close> returns all three identifiers). As a query it does not succeed: \<^verbatim>\<open>select\<close>,
  \<^verbatim>\<open>get\<close> and \<^verbatim>\<open>set\<close> raise \<^verbatim>\<open>ValueError\<close>, because \<^verbatim>\<open>select\<close> counts three branches against
  two levels.
\<close>

theorem wildcard_query_raises_with_more_branches_than_levels:
  "re_search ''*'' ''/a/*,/b/*,/c/*''
   \<and> make_index example_parse ''/a/*,/b/*,/c/*'' = Inl AssertionError
   \<and> PortMapper_init example_parse [0, 0, 0] (Str ''/a/0,/b/0,/c/0'') None
     = Inr \<lparr>data = [0, 0, 0],
            portmap = \<lparr>nlevels = 2,
                       rows = [([S ''a'', I 0], 0), ([S ''b'', I 0], 1), ([S ''c'', I 0], 2)]\<rparr>\<rparr>
   \<and> get_tuples example_parse
        \<lparr>nlevels = 2, rows = [([S ''a'', I 0], 0::int), ([S ''b'', I 0], 1), ([S ''c'', I 0], 2)]\<rparr>
        ''/a/*,/b/*,/c/*'' None None = Inr [[S ''a'', I 0], [S ''b'', I 0], [S ''c'', I 0]]
   \<and> select example_parse
        \<lparr>nlevels = 2, rows = [([S ''a'', I 0], 0::int), ([S ''b'', I 0], 1), ([S ''c'', I 0], 2)]\<rparr>
        ''/a/*,/b/*,/c/*'' None None = Inl ValueError
   \<and> PortMapper_get example_parse
        \<lparr>data = [0, 0, 0],
         portmap = \<lparr>nlevels = 2,
                    rows = [([S ''a'', I 0], 0), ([S ''b'', I 0], 1), ([S ''c'', I 0], 2)]\<rparr>\<rparr>
        ''/a/*,/b/*,/c/*'' = Inl ValueError
   \<and> PortMapper_set example_parse
        \<lparr>data = [0, 0, 0],
         portmap = \<lparr>nlevels = 2,
                    rows = [([S ''a'', I 0], 0), ([S ''b'', I 0], 1), ([S ''c'', I 0], 2)]\<rparr>\<rparr>
        ''/a/*,/b/*,/c/*'' (Scalar 1) = Inl ValueError"
  by (simp add: example_eval PortMapper_set_def)

subsection \<open>Claim C7: selectors deeper than the table\<close>

text \<open>\<^verbatim>\<open>get_tuples\<close> refuses every selector with a branch deeper than the tested levels.\<close>

lemma foldl_max_ge: "x \<le> foldl max (x::nat) xs"
proof (induction xs arbitrary: x)
  case Nil
  then show ?case by simp
next
  case (Cons z zs)
  have "x \<le> max x z" by simp
  also have "\<dots> \<le> foldl max (max x z) zs" by (rule Cons.IH)
  finally show ?case by simp
qed

lemma foldl_max_member: "y \<in> set xs \<Longrightarrow> y \<le> foldl max (x::nat) xs"
proof (induction xs arbitrary: x)
  case Nil
  then show ?case by simp
next
  case (Cons z zs)
  show ?case
  proof (cases "y = z")
    case True
    have "z \<le> max x z" by simp
    also have "\<dots> \<le> foldl max (max x z) zs" by (rule foldl_max_ge)
    finally show ?thesis using True by simp
  next
    case False
    with Cons.prems have "y \<in> set zs" by simp
    then have "y \<le> foldl max (max x z) zs" by (rule Cons.IH)
    then show ?thesis by simp
  qed
qed

lemma py_max_ge:
  assumes "py_max xs = Inr m" and "y \<in> set xs"
  shows "y \<le> m"
proof (cases xs)
  case Nil
  with assms show ?thesis by simp
next
  case (Cons x xs')
  with assms have m: "m = foldl max x xs'" by simp
  show ?thesis
  proof (cases "y = x")
    case True
    then show ?thesis using m foldl_max_ge [of x xs'] by simp
  next
    case False
    with assms Cons have "y \<in> set xs'" by simp
    then show ?thesis using m foldl_max_member [of y xs' x] by simp
  qed
qed

lemma get_tuples_too_deep:
  assumes "parse s = Inr pl" and "b \<in> set pl"
    and "length b > length (names_slice df start stop)"
  shows "get_tuples parse df s start stop = Inl ValueError"
proof -
  from assms(2) obtain m where m: "py_max (map length pl) = Inr m"
    by (cases pl) simp_all
  from assms(2) have "length b \<in> set (map length pl)" by simp
  with m have "length b \<le> m" by (rule py_max_ge)
  with assms m show ?thesis by (simp add: get_tuples_def)
qed

text \<open>
  C7 at a failing input. The table has the two levels of its one identifier \<^verbatim>\<open>('foo', 0)\<close>;
  the selectors \<^verbatim>\<open>/bar/0/1\<close> and \<^verbatim>\<open>/foo/0/*\<close> have three levels. \<^verbatim>\<open>get_tuples\<close> compares the
  maximum number of levels with the number of index levels and raises \<^verbatim>\<open>ValueError\<close>;
  \<^verbatim>\<open>select\<close> compares \<^verbatim>\<open>len(parse_list)\<close>, the number of branches (one), lets both selectors
  pass and returns a result: no row for the first, the row itself for the second.
\<close>

theorem select_accepts_selector_deeper_than_table:
  "get_tuples example_parse \<lparr>nlevels = 2, rows = [([S ''foo'', I 0], 0::int)]\<rparr>
       ''/bar/0/1'' None None = Inl ValueError
   \<and> select example_parse \<lparr>nlevels = 2, rows = [([S ''foo'', I 0], 0::int)]\<rparr>
       ''/bar/0/1'' None None = Inr \<lparr>nlevels = 2, rows = []\<rparr>
   \<and> get_tuples example_parse \<lparr>nlevels = 2, rows = [([S ''foo'', I 0], 0::int)]\<rparr>
       ''/foo/0/*'' None None = Inl ValueError
   \<and> select example_parse \<lparr>nlevels = 2, rows = [([S ''foo'', I 0], 0::int)]\<rparr>
       ''/foo/0/*'' None None = Inr \<lparr>nlevels = 2, rows = [([S ''foo'', I 0], 0)]\<rparr>"
  by (simp add: example_eval)

subsection \<open>Claim C1: building a table and resolving its own selector\<close>

text \<open>
  Where the selector has no more branches than levels, the round trip holds: every row of
  the table built from a selector is matched by the branch it came from.
\<close>

lemma matcher_elements_accepted:
  "v \<in> set (matcher_elements tok) \<Longrightarrow> token_accepts tok v"
  by (cases tok rule: matcher_elements.cases) auto

lemma branch_ids_accepted:
  assumes "x \<in> set (branch_ids b)"
  shows "length x = length b \<and> branch_matches b x"
proof -
  from assms have all: "list_all2 (\<lambda>v xs. v \<in> set xs) x (map matcher_elements b)"
    by (simp add: branch_ids_def product_lists_member)
  then have len: "length x = length b"
    by (auto dest: list_all2_lengthD)
  from all have "list_all2 (\<lambda>v tok. v \<in> set (matcher_elements tok)) x b"
    by (simp add: list_all2_map2)
  then have "list_all2 (\<lambda>v tok. token_accepts tok v) x b"
    by (rule list_all2_mono) (rule matcher_elements_accepted)
  then have "list_all2 token_accepts b x"
    by (simp add: list_all2_conv_all_nth)
  with len show ?thesis by (simp add: branch_matches_def)
qed

lemma filter_all: "list_all P xs \<Longrightarrow> filter P xs = xs"
  by (induction xs) simp_all

lemma round_trip_when_guard_passes:
  assumes star: "\<not> re_search ''*'' s" and colon: "\<not> re_search '':]'' s"
    and parsed: "parse s = Inr pl" and some: "pl \<noteq> []" and res: "resolvable pl"
    and same: "list_all (\<lambda>b. length b = d) pl" and two: "2 \<le> d"
    and size: "length (expand_ids pl) = length data_arg"
    and guard: "length pl \<le> d"
  shows "\<exists>pm. PortMapper_init parse data_arg (Str s) None = Inr pm
            \<and> select parse (portmap pm) s None None = Inr (portmap pm)
            \<and> frame_values (portmap pm) = map int [0..<length data_arg]"
proof -
  define pm where "pm = \<lparr>data = data_arg,
      portmap = \<lparr>nlevels = d, rows = zip (expand_ids pl) (map int [0..<length data_arg])\<rparr>\<rparr>"
  have init: "PortMapper_init parse data_arg (Str s) None = Inr pm"
    using make_index_resolvable [of s parse pl d] star colon parsed some res same two size
    by (simp add: PortMapper_init_def pm_def)
  have rows: "\<And>r. r \<in> set (rows (portmap pm)) \<Longrightarrow>
      length (fst r) = d \<and> (\<exists>b \<in> set pl. branch_matches b (fst r))"
  proof -
    fix r assume "r \<in> set (rows (portmap pm))"
    then have "(fst r, snd r) \<in> set (zip (expand_ids pl) (map int [0..<length data_arg]))"
      by (simp add: pm_def)
    then have "fst r \<in> set (expand_ids pl)"
      by (rule set_zip_leftD)
    then obtain b where b: "b \<in> set pl" and x: "fst r \<in> set (branch_ids b)"
      by (auto simp: expand_ids_def)
    from b same have "length b = d" by (simp add: list_all_iff)
    with branch_ids_accepted [OF x] b
    show "length (fst r) = d \<and> (\<exists>b \<in> set pl. branch_matches b (fst r))" by auto
  qed
  have "select parse (portmap pm) s None None =
      Inr ((portmap pm)\<lparr>rows := filter (\<lambda>r. \<exists>b \<in> set pl. branch_matches b (fst r))
                                      (rows (portmap pm))\<rparr>)"
  proof (rule select_in_range [of parse s pl "portmap pm"])
    show "parse s = Inr pl" by (rule parsed)
    show "length pl \<le> nlevels (portmap pm)" using guard by (simp add: pm_def)
    show "list_all (\<lambda>b. length b \<le> nlevels (portmap pm)) pl"
      using same by (simp add: pm_def list_all_iff)
    show "list_all (\<lambda>r. length (fst r) = nlevels (portmap pm)) (rows (portmap pm))"
      using rows by (simp add: list_all_iff) (simp add: pm_def)
  qed
  moreover have "filter (\<lambda>r. \<exists>b \<in> set pl. branch_matches b (fst r)) (rows (portmap pm)) =
      rows (portmap pm)"
    by (rule filter_all) (simp add: list_all_iff rows)
  ultimately have sel: "select parse (portmap pm) s None None = Inr (portmap pm)"
    by simp
  have "frame_values (portmap pm) = map int [0..<length data_arg]"
    using size by (simp add: frame_values_def pm_def)
  with init sel show ?thesis by blast
qed

text \<open>
  C1 at a failing input. The buffer has length three and the selector \<^verbatim>\<open>/a/0,/a/1,/a/2\<close>
  resolves to the three identifiers \<^verbatim>\<open>('a',0)\<close>, \<^verbatim>\<open>('a',1)\<close>, \<^verbatim>\<open>('a',2)\<close>; the \<^verbatim>\<open>PortMapper\<close> is
  built, and querying it with the same selector raises \<^verbatim>\<open>ValueError\<close> instead of returning
  the positions 0, 1, 2: the selector has three branches and the table two levels, and
  \<^verbatim>\<open>select\<close> compares those two numbers.
\<close>

theorem round_trip_fails_with_more_branches_than_levels:
  "PortMapper_init example_parse [0, 0, 0] (Str ''/a/0,/a/1,/a/2'') None
     = Inr \<lparr>data = [0, 0, 0],
            portmap = \<lparr>nlevels = 2,
                       rows = [([S ''a'', I 0], 0), ([S ''a'', I 1], 1), ([S ''a'', I 2], 2)]\<rparr>\<rparr>
   \<and> select example_parse
        \<lparr>nlevels = 2, rows = [([S ''a'', I 0], 0::int), ([S ''a'', I 1], 1), ([S ''a'', I 2], 2)]\<rparr>
        ''/a/0,/a/1,/a/2'' None None = Inl ValueError
   \<and> PortMapper_get example_parse
        \<lparr>data = [0, 0, 0],
         portmap = \<lparr>nlevels = 2,
                    rows = [([S ''a'', I 0], 0), ([S ''a'', I 1], 1), ([S ''a'', I 2], 2)]\<rparr>\<rparr>
        ''/a/0,/a/1,/a/2'' = Inl ValueError"
  by (simp add: example_eval)

subsection \<open>Claim C8: a query that matches nothing\<close>

text \<open>Where the guard of \<^verbatim>\<open>select\<close> lets the selector pass and no branch is deeper than the
  table, a query that matches no row returns the empty sequence.\<close>

lemma get_empty_when_guard_passes:
  assumes "parse s = Inr pl"
    and "length pl \<le> nlevels (portmap pm)"
    and "list_all (\<lambda>b. length b \<le> nlevels (portmap pm)) pl"
    and "list_all (\<lambda>r. length (fst r) = nlevels (portmap pm)) (rows (portmap pm))"
    and "list_all (\<lambda>r. \<not> (\<exists>b \<in> set pl. branch_matches b (fst r))) (rows (portmap pm))"
  shows "PortMapper_get parse pm s = Inr []"
proof -
  have "filter (\<lambda>r. \<exists>b \<in> set pl. branch_matches b (fst r)) (rows (portmap pm)) = []"
    using assms(5) by (simp add: list_all_iff filter_empty_conv)
  then have "select parse (portmap pm) s None None = Inr ((portmap pm)\<lparr>rows := []\<rparr>)"
    using select_in_range [of parse s pl "portmap pm"] assms(1-4) by simp
  then show ?thesis by (simp add: PortMapper_get_def frame_values_def)
qed

text \<open>
  C8 at a failing input. The table holds \<^verbatim>\<open>('a',0)\<close> and \<^verbatim>\<open>('a',1)\<close>; the selector
  \<^verbatim>\<open>/x,/y,/z\<close> is well formed, one level deep, and the membership test rejects both rows
  (\<^verbatim>\<open>get_tuples\<close> returns the empty list). \<^verbatim>\<open>get\<close> does not return an empty sequence: \<^verbatim>\<open>select\<close>
  counts three branches against two levels and raises \<^verbatim>\<open>ValueError\<close>.
\<close>

theorem get_raises_on_empty_match_with_many_branches:
  "PortMapper_init example_parse [0, 0] (Str ''/a/0,/a/1'') None
     = Inr \<lparr>data = [0, 0],
            portmap = \<lparr>nlevels = 2, rows = [([S ''a'', I 0], 0), ([S ''a'', I 1], 1)]\<rparr>\<rparr>
   \<and> select_test [S ''a'', I 0] [[Lit (S ''x'')], [Lit (S ''y'')], [Lit (S ''z'')]] None None
     = Inr False
   \<and> select_test [S ''a'', I 1] [[Lit (S ''x'')], [Lit (S ''y'')], [Lit (S ''z'')]] None None
     = Inr False
   \<and> get_tuples example_parse
        \<lparr>nlevels = 2, rows = [([S ''a'', I 0], 0::int), ([S ''a'', I 1], 1)]\<rparr>
        ''/x,/y,/z'' None None = Inr []
   \<and> PortMapper_get example_parse
        \<lparr>data = [0, 0],
         portmap = \<lparr>nlevels = 2, rows = [([S ''a'', I 0], 0), ([S ''a'', I 1], 1)]\<rparr>\<rparr>
        ''/x,/y,/z'' = Inl ValueError"
  by (simp add: example_eval)

subsection \<open>Claim C9: the output phase\<close>

lemma bind_InrE:
  assumes "bind x f = Inr y"
  obtains v where "x = Inr v" and "f v = Inr y"
  using assms by (cases x) (simp_all add: bind_def)

lemma get_ports_nonzero_missing:
  "attr_lookup PortMapper_attributes ''get_ports_nonzero'' nonzero = Inl AttributeError"
  by (simp add: attr_lookup_def PortMapper_attributes_def)

text \<open>No destination gets past the call of \<^verbatim>\<open>get_ports_nonzero\<close>: with a destination to
  serve, \<^verbatim>\<open>_put_out_data\<close> raises and stages nothing.\<close>

lemma put_out_data_entry_raises:
  "put_out_data_entry PortMapper_attributes nonzero intersection m out_id \<noteq> Inr entry"
proof
  assume "put_out_data_entry PortMapper_attributes nonzero intersection m out_id = Inr entry"
  then obtain f where
    "attr_lookup PortMapper_attributes ''get_ports_nonzero'' nonzero = Inr f"
    unfolding put_out_data_entry_def by (elim bind_InrE)
  then show False by (simp add: get_ports_nonzero_missing)
qed

lemma put_out_data_raises:
  assumes "out_ids m \<noteq> []"
  shows "put_out_data PortMapper_attributes nonzero intersection m \<noteq> Inr m'"
proof
  assume run: "put_out_data PortMapper_attributes nonzero intersection m = Inr m'"
  from assms obtain out_id rest where ids: "out_ids m = out_id # rest"
    by (cases "out_ids m") auto
  from run obtain entry where
    "put_out_data_entry PortMapper_attributes nonzero intersection (m\<lparr>out_data := []\<rparr>) out_id
       = Inr entry"
    unfolding put_out_data_def ids by (auto elim: bind_InrE)
  then show False by (simp add: put_out_data_entry_raises)
qed

text \<open>
  C9 at a failing input. The module has one destination \<^verbatim>\<open>'B'\<close>, set up in every dictionary,
  with spike values 1, 0, 1 and the second and third spike port wired to \<^verbatim>\<open>'B'\<close>: the entry
  to stage would pair \<^verbatim>\<open>'B'\<close> with the graded value 0.25 and the index of the third port.
  \<^verbatim>\<open>_put_out_data\<close> stages nothing: \<^verbatim>\<open>self.pm['spike'].get_ports_nonzero()\<close> reads an attribute
  that \<^verbatim>\<open>PortMapper\<close> does not have and raises \<^verbatim>\<open>AttributeError\<close>, whatever the method would
  compute and however the intersection is listed.
\<close>

theorem put_out_data_raises_attribute_error:
  "put_out_data PortMapper_attributes nonzero intersection example_module = Inl AttributeError"
  by (simp add: put_out_data_def put_out_data_entry_def bind_def py_getitem_def np_take_def
      np_position_def attr_lookup_def PortMapper_attributes_def example_module_def)

subsection \<open>Claim C10: \<^verbatim>\<open>isdisjoint\<close>\<close>

lemma max_levels_of_list_raises: "max_levels_of_list parse_obj sel \<noteq> Inr n"
  by (auto simp: max_levels_of_list_def elim!: bind_InrE)

lemma isdisjoint_raises: "isdisjoint namespace p parse_obj s0 s1 \<noteq> Inr r"
  by (auto simp: isdisjoint_def max_levels_of_list_raises elim!: bind_InrE split: if_splits)

text \<open>
  C10. \<^verbatim>\<open>PathLikeSelector.isdisjoint\<close> never returns the boolean its docstring promises. In
  the namespace of \<^verbatim>\<open>plsel.py\<close>, for every two selector texts without wildcard (its
  documented precondition) it raises \<^verbatim>\<open>NameError\<close> on the unbound name \<^verbatim>\<open>p\<close>, before any level
  is looked at; and whatever the namespace binds, no call returns \<^verbatim>\<open>True\<close> or \<^verbatim>\<open>False\<close> (nor,
  since \<^verbatim>\<open>max_levels\<close> raises on the parsed list it is handed, reaches the end of the body).
\<close>

theorem isdisjoint_never_returns_a_boolean:
  "isdisjoint plsel_globals p parse_obj s0 s1 =
     (if re_search ''*'' s0 \<or> re_search ''*'' s1 then Inl AssertionError else Inl NameError)
   \<and> isdisjoint namespace p parse_obj s0 s1 \<noteq> Inr (Some b)
   \<and> isdisjoint namespace p parse_obj s0 s1 \<noteq> Inr None"
proof (intro conjI)
  show "isdisjoint plsel_globals p parse_obj s0 s1 =
     (if re_search ''*'' s0 \<or> re_search ''*'' s1 then Inl AssertionError else Inl NameError)"
    by (simp add: isdisjoint_def name_lookup_def plsel_globals_def bind_def)
qed (rule isdisjoint_raises)+

subsection \<open>Claim C3: constructing a \<^verbatim>\<open>Module\<close>\<close>

lemma PortMapper_new_selector_first:
  "PortMapper_new parse (of_selectors sel) other = Inl AssertionError"
  by (cases sel) (simp_all add: PortMapper_new_def)

lemma Module_init_raises:
  "Module_init namespace PORT_TIME attributes collab parse args \<noteq> Inr r"
proof
  assume "Module_init namespace PORT_TIME attributes collab parse args = Inr r"
  then obtain pm where
    "PortMapper_new parse (of_selectors (sel_gpot args)) (PyArray (data_gpot args)) = Inr pm"
    unfolding Module_init_def Let_def
    by (elim bind_InrE) (auto split: if_splits elim!: bind_InrE)
  then show False by (simp add: PortMapper_new_selector_first)
qed

text \<open>
  C3. For every argument list, creating a \<^verbatim>\<open>core.Module\<close> raises before a module exists.
  In the namespace of \<^verbatim>\<open>core.py\<close> the default \<^verbatim>\<open>port_time=PORT_TIME\<close> raises \<^verbatim>\<open>NameError\<close>;
  \<^verbatim>\<open>PathLikeSelector\<close> defines neither \<^verbatim>\<open>is_in\<close> nor \<^verbatim>\<open>are_disjoint\<close>; and \<^verbatim>\<open>PortMapper\<close>, called
  with the selector first and the data second, fails its \<^verbatim>\<open>assert\<close>s on the selector. Whatever
  the namespace and the class bind and whatever the collaborators do, the constructor
  returns no module.
\<close>

theorem Module_init_always_raises:
  "Module_init core_globals PORT_TIME PathLikeSelector_attributes collab parse args
     = Inl NameError
   \<and> (\<exists>e. Module_init namespace PORT_TIME attributes collab parse args = Inl e)
   \<and> name_lookup core_globals ''PORT_TIME'' PORT_TIME = Inl NameError
   \<and> attr_lookup PathLikeSelector_attributes ''is_in'' (is_in collab) = Inl AttributeError
   \<and> attr_lookup PathLikeSelector_attributes ''are_disjoint'' (are_disjoint collab)
       = Inl AttributeError
   \<and> PortMapper_new parse (of_selectors (sel_gpot args)) (PyArray (data_gpot args))
       = Inl AssertionError
   \<and> PortMapper_new parse (of_selectors (sel_spike args)) (PyArray (data_spike args))
       = Inl AssertionError"
proof -
  have name: "name_lookup core_globals ''PORT_TIME'' PORT_TIME = Inl NameError"
    by (simp add: name_lookup_def core_globals_def)
  then have written: "Module_init core_globals PORT_TIME PathLikeSelector_attributes collab
      parse args = Inl NameError"
    by (simp add: Module_init_def bind_def)
  have any: "\<exists>e. Module_init namespace PORT_TIME attributes collab parse args = Inl e"
    using Module_init_raises [of namespace PORT_TIME attributes collab parse args]
    by (cases "Module_init namespace PORT_TIME attributes collab parse args") auto
  have attrs: "attr_lookup PathLikeSelector_attributes ''is_in'' (is_in collab) = Inl AttributeError"
    "attr_lookup PathLikeSelector_attributes ''are_disjoint'' (are_disjoint collab)
       = Inl AttributeError"
    by (simp_all add: attr_lookup_def PathLikeSelector_attributes_def)
  from name written any attrs show ?thesis
    by (simp add: PortMapper_new_selector_first)
qed

end
